theory Spec2Isabelle
  imports Main "HOL-Library.Word" "HOL-Library.Sublist"
begin

unbundle bit_operations_syntax

section \<open>Machine types and constants of the sketches\<close>

text \<open>
  The four sketches (ESP32, RP2040 and two revisions of the ESP8266 sketch) are C++ for
  32-bit targets: \<open>unsigned long\<close> and \<open>uint32_t\<close> are 32 bits wide, \<open>int16_t\<close> is read
  in two's complement (\<open>sint\<close>, \<open><s\<close>), and unsigned arithmetic wraps around.
\<close>

type_synonym byte = "8 word"
type_synonym int16_t = "16 word"
type_synonym uint16_t = "16 word"
type_synonym uint32_t = "32 word"
type_synonym uint64_t = "64 word"

text \<open>RadioLib's status code for success (TypeDef.h of RadioLib: \<open>#define RADIOLIB_ERR_NONE (0)\<close>).\<close>

definition RADIOLIB_ERR_NONE :: int16_t where
  "RADIOLIB_ERR_NONE = 0"

text \<open>
  The constants of \<open>config.h\<close> and of RadioLib that the sketches use and that are not part
  of the sources: the uplink interval, the two status codes that \<open>sendReceive\<close> is
  compared with, and the size of the session buffer.
\<close>

record config =
  uplinkIntervalSeconds :: uint32_t
  RADIOLIB_LORAWAN_NO_DOWNLINK :: int16_t
  RADIOLIB_ERR_RX_TIMEOUT :: int16_t
  RADIOLIB_LORAWAN_SESSION_BUF_SIZE :: nat


section \<open>Observable actions, endings and the environment of one boot\<close>

text \<open>The five messages that the sketches hand to \<open>debug\<close>.\<close>

datatype message =
    Initalise_radio_failed
  | Restoring_nonces_buffer_failed
  | Restoring_session_buffer_failed
  | Restore_session_failed
  | Error_in_sendReceive

text \<open>
  What a boot does to the outside world, in order: a failure printed by \<open>debug\<close>, a
  \<open>delay\<close> in milliseconds, the calls of the LoRaWAN node, a write of the nonces to the
  durable store (\<open>store.putBytes\<close>, or the \<open>EEPROM.write\<close> loop with \<open>EEPROM.commit\<close>),
  the entry of \<open>gotoSleep\<close> with its argument, the sleep primitives of the three
  platforms with the wake-up time they are given, and a forced restart.
\<close>

datatype event =
    Report message int
  | Delay uint32_t
  | SetBufferNonces "byte list"
  | SetBufferSession "byte list"
  | BeginOTAA bool int16_t
  | PutNonces "byte list"
  | SendReceive "byte list" int16_t
  | GotoSleep uint32_t
  | TimerWakeup uint64_t
  | DeepSleepStart
  | DeepSleep uint64_t
  | PicoSleep uint32_t
  | Restart

text \<open>
  How a run of \<open>setup\<close> ends: in the endless loop of a fatal \<open>debug\<close>, asleep (the next
  thing that happens is a new boot), in a forced restart, or still inside the join loop
  when the recorded answers of the radio are used up.
\<close>

datatype ending = Halted | Asleep | Restarted | Joining

datatype 'a step = Next 'a | Stop ending 'a

fun andThen :: "'a step \<Rightarrow> ('a \<Rightarrow> 'a step) \<Rightarrow> 'a step" where
  "andThen (Next w) f = f w"
| "andThen (Stop e w) f = Stop e w"

fun world :: "'a step \<Rightarrow> 'a" where
  "world (Next w) = w"
| "world (Stop e w) = w"

fun ended :: "'a step \<Rightarrow> ending option" where
  "ended (Next w) = None"
| "ended (Stop e w) = Some e"

text \<open>
  The answers of the radio and of the platform during one boot. \<open>beginOTAA_join\<close> lists,
  for the successive calls \<open>node.beginOTAA(..., true)\<close>, the returned status and the nonces
  buffer that \<open>node.getBufferNonces()\<close> points to after the call. \<open>sleep_returns\<close> says
  whether the sleep primitive of the platform comes back to its caller.
\<close>

record radio =
  radio_begin :: int16_t
  setBufferNonces :: int16_t
  setBufferSession :: int16_t
  beginOTAA_restore :: int16_t
  beginOTAA_join :: "(int16_t \<times> byte list) list"
  sendReceive :: int16_t
  getBufferSession :: "byte list"
  digitalRead2 :: byte
  analogRead :: "16 word"
  sleep_returns :: bool
  getResetReason :: string


section \<open>State of the sketches\<close>

text \<open>
  The globals that all sketches declare, with the counters of type \<open>'c\<close> (\<open>uint16_t\<close> on
  ESP32 and RP2040, \<open>uint32_t\<close> on ESP8266), and the actions performed so far.
\<close>

record 'c sketch =
  bootCount :: 'c
  bootCountSinceUnsuccessfulJoin :: 'c
  LWsession :: "byte list"
  trace :: "event list"

text \<open>ESP32: the globals live in RTC memory; \<open>store\<close> is the Preferences namespace.\<close>

record esp32 = "uint16_t sketch" +
  store :: "string \<rightharpoonup> byte list"

text \<open>
  RP2040: the same globals and store; \<open>scratch1\<close> is \<open>watchdog_hw->scratch[1]\<close>, which
  the hardware resets to 0 and which keeps its value over a software reset.
\<close>

record rp2040 = esp32 +
  scratch1 :: uint32_t

text \<open>
  ESP8266: the nonces are the first bytes of the EEPROM; the RTC user memory holds
  \<open>bootCount\<close> (block 0), \<open>bootCountSinceUnsuccessfulJoin\<close> (block 4) and the session
  (from block 8). \<open>ESP.rtcUserMemoryRead\<close> and \<open>ESP.rtcUserMemoryWrite\<close> are taken to
  succeed; when they fail the sketches only print a line.
\<close>

record esp8266 = "uint32_t sketch" +
  EEPROM :: "byte list"
  rtc_bootCount :: uint32_t
  rtc_bootCountSinceUnsuccessfulJoin :: uint32_t
  rtc_LWsession :: "byte list"

definition emit :: "event \<Rightarrow> ('c, 'z) sketch_scheme \<Rightarrow> ('c, 'z) sketch_scheme" where
  "emit e w = w\<lparr>trace := trace w @ [e]\<rparr>"


section \<open>Parts shared by all sketches\<close>

text \<open>
  Modelled from the spec: \<open>debug(isFail, message, state, halt)\<close> is defined in \<open>config.h\<close>,
  which is not among the sources. By the spec a failure is logged, radio initialisation
  failure (the only call with \<open>halt = true\<close>) halts the cycle, and every other failure is
  non-fatal.
\<close>

definition debug ::
  "bool \<Rightarrow> message \<Rightarrow> int16_t \<Rightarrow> bool \<Rightarrow> ('c, 'z) sketch_scheme \<Rightarrow> ('c, 'z) sketch_scheme step" where
  "debug isFail msg state halt w =
     (if isFail then
        (if halt then Stop Halted (emit (Report msg (sint state)) w)
         else Next (emit (Report msg (sint state)) w))
      else Next w)"

text \<open>
  \<open>print_wakeup_reason\<close> of the ESP32 sketch and of the first ESP8266 sketch: prints the
  wake-up cause and \<open>bootCount++\<close>.
\<close>

definition print_wakeup_reason ::
  "('w::len word, 'z) sketch_scheme \<Rightarrow> ('w word, 'z) sketch_scheme" where
  "print_wakeup_reason w = w\<lparr>bootCount := bootCount w + 1\<rparr>"

text \<open>
  The session is handed to the node; a failure is reported when \<open>bootCount > 2\<close>
  (\<open>node.setBufferSession(LWsession)\<close> and the \<open>debug\<close> call after it).
\<close>

definition restore_session ::
  "radio \<Rightarrow> ('w::len word, 'z) sketch_scheme \<Rightarrow> ('w word, 'z) sketch_scheme step" where
  "restore_session env w =
     (let state = setBufferSession env;
          w1 = emit (SetBufferSession (LWsession w)) w
      in debug (state \<noteq> RADIOLIB_ERR_NONE \<and> 2 < bootCount w1)
           Restoring_session_buffer_failed state False w1)"

text \<open>\<open>node.beginOTAA(joinEUI, devEUI, nwkKey, appKey, false)\<close> and the \<open>debug\<close> call after it.\<close>

definition restore_activation ::
  "radio \<Rightarrow> ('w::len word, 'z) sketch_scheme \<Rightarrow> ('w word, 'z) sketch_scheme step" where
  "restore_activation env w =
     (let state = beginOTAA_restore env;
          w1 = emit (BeginOTAA False state) w
      in debug (state \<noteq> RADIOLIB_ERR_NONE \<and> 2 < bootCount w1)
           Restore_session_failed state False w1)"

text \<open>
  The right-hand side of
  \<open>uint32_t sleepForSeconds = min((bootCountSinceUnsuccessfulJoin++ + 1UL) * 60UL, 3UL * 60UL)\<close>
  as a function of the value the counter has before the increment. The counter is
  converted to \<open>unsigned long\<close>; \<open>min\<close> is a function on all three platforms, so its
  argument is evaluated once.
\<close>

definition sleepForSeconds :: "'w::len word \<Rightarrow> uint32_t" where
  "sleepForSeconds streak = min ((ucast streak + 1) * 60) (3 * 60)"

text \<open>The conversion \<open>seconds * 1000UL * 1000UL\<close>, passed to a parameter of type \<open>uint64_t\<close>.\<close>

definition microseconds :: "uint32_t \<Rightarrow> uint64_t" where
  "microseconds seconds = ucast (seconds * 1000 * 1000)"

definition highByte :: "16 word \<Rightarrow> byte" where
  "highByte x = ucast (drop_bit 8 x)"

definition lowByte :: "16 word \<Rightarrow> byte" where
  "lowByte x = ucast x"

text \<open>
  \<open>node.sendReceive(uplinkPayload, sizeof(uplinkPayload))\<close> and the \<open>debug\<close> call after it;
  \<open>no_downlink\<close> is the status the sketch compares with besides \<open>RADIOLIB_ERR_NONE\<close>.
\<close>

definition uplink ::
  "int16_t \<Rightarrow> byte list \<Rightarrow> radio \<Rightarrow> ('c, 'z) sketch_scheme \<Rightarrow> ('c, 'z) sketch_scheme step" where
  "uplink no_downlink uplinkPayload env w =
     (let state = sendReceive env;
          w1 = emit (SendReceive uplinkPayload state) w
      in debug (state \<noteq> no_downlink \<and> state \<noteq> RADIOLIB_ERR_NONE)
           Error_in_sendReceive state False w1)"


section \<open>The ESP32 sketch\<close>

text \<open>
  \<open>gotoSleep\<close>: the timer is programmed, deep sleep is started, and if that call comes
  back the sketch waits five minutes and restarts. It never returns to its caller.
\<close>

definition gotoSleep_ESP32 ::
  "radio \<Rightarrow> uint32_t \<Rightarrow> ('c, 'z) sketch_scheme \<Rightarrow> ('c, 'z) sketch_scheme step" where
  "gotoSleep_ESP32 env seconds w =
     (let w1 = emit (GotoSleep seconds) w;
          w2 = emit (TimerWakeup (microseconds seconds)) w1;
          w3 = emit DeepSleepStart w2
      in if sleep_returns env
         then Stop Restarted (emit Restart (emit (Delay (5 * 60 * 1000)) w3))
         else Stop Asleep w3)"

text \<open>
  The nonces are restored only if the key exists; a failure is then always reported.
  The RP2040 sketch has the same lines.
\<close>

definition restore_nonces_ESP32 :: "radio \<Rightarrow> 'z esp32_scheme \<Rightarrow> 'z esp32_scheme step" where
  "restore_nonces_ESP32 env w =
     (case store w ''nonces'' of
        None \<Rightarrow> Next w
      | Some buffer \<Rightarrow>
          (let state = setBufferNonces env;
               w1 = emit (SetBufferNonces buffer) w
           in debug (state \<noteq> RADIOLIB_ERR_NONE) Restoring_nonces_buffer_failed state False w1))"

text \<open>
  The \<open>else\<close> branch of the join loop (\<open>// join was successful\<close>); the RP2040 sketch has
  the same lines.
\<close>

definition joined_ESP32 :: "byte list \<Rightarrow> 'z esp32_scheme \<Rightarrow> 'z esp32_scheme" where
  "joined_ESP32 persist w =
     (let w1 = emit (PutNonces persist) (w\<lparr>store := (store w)(''nonces'' \<mapsto> persist)\<rparr>);
          w2 = w1\<lparr>bootCountSinceUnsuccessfulJoin := 0\<rparr>
      in emit (Delay 1000) w2)"

text \<open>
  \<open>while (state != RADIOLIB_ERR_NONE) { ... }\<close>, with \<open>state\<close> the status of the last
  \<open>beginOTAA\<close> call.
\<close>

fun join_loop_ESP32 ::
  "radio \<Rightarrow> (int16_t \<times> byte list) list \<Rightarrow> int16_t \<Rightarrow> 'z esp32_scheme \<Rightarrow> 'z esp32_scheme step" where
  "join_loop_ESP32 env [] state w =
     (if state \<noteq> RADIOLIB_ERR_NONE then Stop Joining w else Next w)"
| "join_loop_ESP32 env ((st, persist) # answers) state w =
     (if state \<noteq> RADIOLIB_ERR_NONE then
        (let w1 = emit (BeginOTAA True st) w in
         if st <s RADIOLIB_ERR_NONE then
           (let sleepFor = sleepForSeconds (bootCountSinceUnsuccessfulJoin w1);
                w2 = w1\<lparr>bootCountSinceUnsuccessfulJoin := bootCountSinceUnsuccessfulJoin w1 + 1\<rparr>
            in case gotoSleep_ESP32 env sleepFor w2 of
                 Stop e w3 \<Rightarrow> Stop e w3
               | Next w3 \<Rightarrow> join_loop_ESP32 env answers st w3)
         else join_loop_ESP32 env answers st (joined_ESP32 persist w1))
      else Next w)"

text \<open>The uplink, the copy of the session into \<open>LWsession\<close>, and the sleep until the next uplink.\<close>

definition uplink_ESP32 :: "config \<Rightarrow> radio \<Rightarrow> 'z esp32_scheme \<Rightarrow> 'z esp32_scheme step" where
  "uplink_ESP32 cfg env w =
     (let uplinkPayload =
            [digitalRead2 env, highByte (analogRead env), lowByte (analogRead env)]
      in andThen (uplink (RADIOLIB_LORAWAN_NO_DOWNLINK cfg) uplinkPayload env w) (\<lambda>w1.
         gotoSleep_ESP32 env (uplinkIntervalSeconds cfg) (w1\<lparr>LWsession := getBufferSession env\<rparr>)))"

text \<open>
  The first part of \<open>setup\<close>, up to the loop: after \<open>delay(2000)\<close> the boot is counted,
  the radio is initialised (a failure is fatal), and the nonces, the session and the
  activation are restored. The lines printed on the serial port are not part of the
  trace, here and in the other sketches.
\<close>

definition restore_ESP32 :: "radio \<Rightarrow> 'z esp32_scheme \<Rightarrow> 'z esp32_scheme step" where
  "restore_ESP32 env w =
     andThen (debug (radio_begin env \<noteq> RADIOLIB_ERR_NONE) Initalise_radio_failed
                (radio_begin env) True (print_wakeup_reason (emit (Delay 2000) w))) (\<lambda>w1.
     andThen (restore_nonces_ESP32 env w1) (\<lambda>w2.
     andThen (restore_session env w2) (\<lambda>w3.
     restore_activation env w3)))"

definition setup_ESP32 :: "config \<Rightarrow> radio \<Rightarrow> 'z esp32_scheme \<Rightarrow> 'z esp32_scheme step" where
  "setup_ESP32 cfg env w =
     andThen (restore_ESP32 env w) (\<lambda>w1.
     andThen (join_loop_ESP32 env (beginOTAA_join env) (beginOTAA_restore env) w1) (\<lambda>w2.
     uplink_ESP32 cfg env w2))"

text \<open>
  The values the initialisers give to the RTC variables on a boot that is not a wake-up
  from deep sleep; the flash store is what it was.
\<close>

definition power_on_ESP32 :: "byte list \<Rightarrow> (string \<rightharpoonup> byte list) \<Rightarrow> esp32" where
  "power_on_ESP32 session flash =
     \<lparr>bootCount = 1, bootCountSinceUnsuccessfulJoin = 0, LWsession = session, trace = [],
      store = flash\<rparr>"


section \<open>The RP2040 sketch\<close>

text \<open>
  Modelled from the spec: \<open>pico_sleep\<close> is declared in \<open>src/rp2040/pico_rtc_utils.h\<close>, which
  is not among the sources. By the spec a sleep operation either does not return (the
  device sleeps) or returns to its caller.
\<close>

definition pico_sleep ::
  "radio \<Rightarrow> uint32_t \<Rightarrow> ('c, 'z) sketch_scheme \<Rightarrow> ('c, 'z) sketch_scheme step" where
  "pico_sleep env seconds w =
     (if sleep_returns env then Next (emit (PicoSleep seconds) w)
      else Stop Asleep (emit (PicoSleep seconds) w))"

text \<open>
  \<open>gotoSleep\<close>: \<open>bootCount\<close> is saved in the scratch register, the RTC is set, and after
  \<open>delay(100)\<close> the sketch sleeps. There is nothing after \<open>pico_sleep\<close>: when it comes
  back, \<open>gotoSleep\<close> returns to its caller.
\<close>

definition gotoSleep_RP2040 :: "radio \<Rightarrow> uint32_t \<Rightarrow> rp2040 \<Rightarrow> rp2040 step" where
  "gotoSleep_RP2040 env seconds w =
     (let w1 = w\<lparr>scratch1 := ucast (bootCount w)\<rparr>;
          w2 = emit (GotoSleep seconds) w1;
          w3 = emit (Delay 100) w2
      in pico_sleep env seconds w3)"

fun join_loop_RP2040 ::
  "radio \<Rightarrow> (int16_t \<times> byte list) list \<Rightarrow> int16_t \<Rightarrow> rp2040 \<Rightarrow> rp2040 step" where
  "join_loop_RP2040 env [] state w =
     (if state \<noteq> RADIOLIB_ERR_NONE then Stop Joining w else Next w)"
| "join_loop_RP2040 env ((st, persist) # answers) state w =
     (if state \<noteq> RADIOLIB_ERR_NONE then
        (let w1 = emit (BeginOTAA True st) w in
         if st <s RADIOLIB_ERR_NONE then
           (let sleepFor = sleepForSeconds (bootCountSinceUnsuccessfulJoin w1);
                w2 = w1\<lparr>bootCountSinceUnsuccessfulJoin := bootCountSinceUnsuccessfulJoin w1 + 1\<rparr>
            in case gotoSleep_RP2040 env sleepFor w2 of
                 Stop e w3 \<Rightarrow> Stop e w3
               | Next w3 \<Rightarrow> join_loop_RP2040 env answers st w3)
         else join_loop_RP2040 env answers st (joined_ESP32 persist w1))
      else Next w)"

text \<open>The uplink with its fixed payload, the sleep, and the soft reset after it.\<close>

definition uplink_RP2040 :: "config \<Rightarrow> radio \<Rightarrow> rp2040 \<Rightarrow> rp2040 step" where
  "uplink_RP2040 cfg env w =
     (let uplinkPayload = [0xDE, 0xAD, 0xBE, 0xEF]
      in andThen (uplink (RADIOLIB_LORAWAN_NO_DOWNLINK cfg) uplinkPayload env w) (\<lambda>w1.
         andThen (gotoSleep_RP2040 env (uplinkIntervalSeconds cfg)
                    (w1\<lparr>LWsession := getBufferSession env\<rparr>)) (\<lambda>w2.
         Stop Restarted (emit Restart w2))))"

text \<open>
  The start of \<open>setup\<close>: \<open>bootCount\<close> is read from the scratch register (a conversion from
  32 to 16 bits), and a value of 0 is taken as a hardware reset.
\<close>

definition recall_bootCount_RP2040 :: "rp2040 \<Rightarrow> rp2040" where
  "recall_bootCount_RP2040 w =
     (let w1 = w\<lparr>bootCount := ucast (scratch1 w)\<rparr>
      in if bootCount w1 = 0
         then w1\<lparr>bootCount := 1, bootCountSinceUnsuccessfulJoin := 0\<rparr>
         else w1)"

definition restore_RP2040 :: "radio \<Rightarrow> rp2040 \<Rightarrow> rp2040 step" where
  "restore_RP2040 env w =
     andThen (debug (radio_begin env \<noteq> RADIOLIB_ERR_NONE) Initalise_radio_failed
                (radio_begin env) True (recall_bootCount_RP2040 (emit (Delay 2000) w))) (\<lambda>w1.
     andThen (restore_nonces_ESP32 env w1) (\<lambda>w2.
     andThen (restore_session env w2) (\<lambda>w3.
     restore_activation env w3)))"

definition setup_RP2040 :: "config \<Rightarrow> radio \<Rightarrow> rp2040 \<Rightarrow> rp2040 step" where
  "setup_RP2040 cfg env w =
     andThen (restore_RP2040 env w) (\<lambda>w1.
     andThen (join_loop_RP2040 env (beginOTAA_join env) (beginOTAA_restore env) w1) (\<lambda>w2.
     uplink_RP2040 cfg env w2))"


section \<open>The ESP8266 sketches\<close>

text \<open>
  \<open>gotoSleep\<close> (the same in both revisions): the two counters are written to the RTC
  memory, then as on ESP32.
\<close>

definition gotoSleep_ESP8266 :: "radio \<Rightarrow> uint32_t \<Rightarrow> esp8266 \<Rightarrow> esp8266 step" where
  "gotoSleep_ESP8266 env seconds w =
     (let w1 = emit (GotoSleep seconds) w;
          w2 = w1\<lparr>rtc_bootCount := bootCount w1,
                 rtc_bootCountSinceUnsuccessfulJoin := bootCountSinceUnsuccessfulJoin w1\<rparr>;
          w3 = emit (DeepSleep (microseconds seconds)) w2
      in if sleep_returns env
         then Stop Restarted (emit Restart (emit (Delay (5 * 60 * 1000)) w3))
         else Stop Asleep w3)"

text \<open>The two counters are read from the RTC memory at the start of \<open>setup\<close>.\<close>

definition recall_bootCounts_ESP8266 :: "esp8266 \<Rightarrow> esp8266" where
  "recall_bootCounts_ESP8266 w =
     w\<lparr>bootCount := rtc_bootCount w,
       bootCountSinceUnsuccessfulJoin := rtc_bootCountSinceUnsuccessfulJoin w\<rparr>"

text \<open>
  The nonces are read from the EEPROM and handed to the node whatever they are; a
  failure is reported when \<open>bootCount > 2\<close>.
\<close>

definition restore_nonces_ESP8266 :: "radio \<Rightarrow> esp8266 \<Rightarrow> esp8266 step" where
  "restore_nonces_ESP8266 env w =
     (let LWnonces = EEPROM w;
          state = setBufferNonces env;
          w1 = emit (SetBufferNonces LWnonces) w
      in debug (state \<noteq> RADIOLIB_ERR_NONE \<and> 2 < bootCount w1)
           Restoring_nonces_buffer_failed state False w1)"

definition recall_session_ESP8266 :: "esp8266 \<Rightarrow> esp8266" where
  "recall_session_ESP8266 w = w\<lparr>LWsession := rtc_LWsession w\<rparr>"

definition joined_ESP8266 :: "byte list \<Rightarrow> esp8266 \<Rightarrow> esp8266" where
  "joined_ESP8266 persist w =
     (let w1 = emit (PutNonces persist) (w\<lparr>EEPROM := persist\<rparr>);
          w2 = w1\<lparr>bootCountSinceUnsuccessfulJoin := 0\<rparr>
      in emit (Delay 1000) w2)"

fun join_loop_ESP8266 ::
  "radio \<Rightarrow> (int16_t \<times> byte list) list \<Rightarrow> int16_t \<Rightarrow> esp8266 \<Rightarrow> esp8266 step" where
  "join_loop_ESP8266 env [] state w =
     (if state \<noteq> RADIOLIB_ERR_NONE then Stop Joining w else Next w)"
| "join_loop_ESP8266 env ((st, persist) # answers) state w =
     (if state \<noteq> RADIOLIB_ERR_NONE then
        (let w1 = emit (BeginOTAA True st) w in
         if st <s RADIOLIB_ERR_NONE then
           (let sleepFor = sleepForSeconds (bootCountSinceUnsuccessfulJoin w1);
                w2 = w1\<lparr>bootCountSinceUnsuccessfulJoin := bootCountSinceUnsuccessfulJoin w1 + 1\<rparr>
            in case gotoSleep_ESP8266 env sleepFor w2 of
                 Stop e w3 \<Rightarrow> Stop e w3
               | Next w3 \<Rightarrow> join_loop_ESP8266 env answers st w3)
         else join_loop_ESP8266 env answers st (joined_ESP8266 persist w1))
      else Next w)"

text \<open>
  The uplink, the copy of the session into \<open>LWsession\<close> and into the RTC memory, and the
  sleep until the next uplink.
\<close>

definition uplink_ESP8266 :: "int16_t \<Rightarrow> config \<Rightarrow> radio \<Rightarrow> esp8266 \<Rightarrow> esp8266 step" where
  "uplink_ESP8266 no_downlink cfg env w =
     (let uplinkPayload =
            [digitalRead2 env, highByte (analogRead env), lowByte (analogRead env)]
      in andThen (uplink no_downlink uplinkPayload env w) (\<lambda>w1.
         gotoSleep_ESP8266 env (uplinkIntervalSeconds cfg)
           (w1\<lparr>LWsession := getBufferSession env, rtc_LWsession := getBufferSession env\<rparr>)))"

text \<open>
  The first revision: \<open>print_wakeup_reason\<close> counts the boot, and the outcome of
  \<open>sendReceive\<close> is compared with \<open>RADIOLIB_ERR_RX_TIMEOUT\<close>.
\<close>

definition restore_ESP8266_v1 :: "radio \<Rightarrow> esp8266 \<Rightarrow> esp8266 step" where
  "restore_ESP8266_v1 env w =
     andThen (debug (radio_begin env \<noteq> RADIOLIB_ERR_NONE) Initalise_radio_failed
                (radio_begin env) True
                (print_wakeup_reason (recall_bootCounts_ESP8266 (emit (Delay 2000) w)))) (\<lambda>w1.
     andThen (restore_nonces_ESP8266 env w1) (\<lambda>w2.
     andThen (restore_session env (recall_session_ESP8266 w2)) (\<lambda>w3.
     restore_activation env w3)))"

definition setup_ESP8266_v1 :: "config \<Rightarrow> radio \<Rightarrow> esp8266 \<Rightarrow> esp8266 step" where
  "setup_ESP8266_v1 cfg env w =
     andThen (restore_ESP8266_v1 env w) (\<lambda>w1.
     andThen (join_loop_ESP8266 env (beginOTAA_join env) (beginOTAA_restore env) w1) (\<lambda>w2.
     uplink_ESP8266 (RADIOLIB_ERR_RX_TIMEOUT cfg) cfg env w2))"

text \<open>
  The second revision: \<open>print_wakeup_reason\<close> clears the 512 bytes of RTC memory unless
  the reset reason is a wake-up from deep sleep, \<open>setup\<close> counts the boot itself
  (\<open>++bootCount\<close>), and the outcome of \<open>sendReceive\<close> is compared with
  \<open>RADIOLIB_LORAWAN_NO_DOWNLINK\<close>.
\<close>

definition print_wakeup_reason_ESP8266 :: "config \<Rightarrow> radio \<Rightarrow> esp8266 \<Rightarrow> esp8266" where
  "print_wakeup_reason_ESP8266 cfg env w =
     (if getResetReason env \<noteq> ''Deep-Sleep Wake''
      then w\<lparr>rtc_bootCount := 0, rtc_bootCountSinceUnsuccessfulJoin := 0,
             rtc_LWsession := replicate (RADIOLIB_LORAWAN_SESSION_BUF_SIZE cfg) 0\<rparr>
      else w)"

definition restore_ESP8266 :: "config \<Rightarrow> radio \<Rightarrow> esp8266 \<Rightarrow> esp8266 step" where
  "restore_ESP8266 cfg env w =
     (let w0 = recall_bootCounts_ESP8266
                 (print_wakeup_reason_ESP8266 cfg env (emit (Delay 2000) w))
      in
     andThen (debug (radio_begin env \<noteq> RADIOLIB_ERR_NONE) Initalise_radio_failed
                (radio_begin env) True (w0\<lparr>bootCount := bootCount w0 + 1\<rparr>)) (\<lambda>w1.
     andThen (restore_nonces_ESP8266 env w1) (\<lambda>w2.
     andThen (restore_session env (recall_session_ESP8266 w2)) (\<lambda>w3.
     restore_activation env w3))))"

definition setup_ESP8266 :: "config \<Rightarrow> radio \<Rightarrow> esp8266 \<Rightarrow> esp8266 step" where
  "setup_ESP8266 cfg env w =
     andThen (restore_ESP8266 cfg env w) (\<lambda>w1.
     andThen (join_loop_ESP8266 env (beginOTAA_join env) (beginOTAA_restore env) w1) (\<lambda>w2.
     uplink_ESP8266 (RADIOLIB_LORAWAN_NO_DOWNLINK cfg) cfg env w2))"


section \<open>Reading a trace\<close>

text \<open>The arguments of the calls of \<open>gotoSleep\<close>, in order.\<close>

fun sleeps :: "event list \<Rightarrow> uint32_t list" where
  "sleeps [] = []"
| "sleeps (GotoSleep s # es) = s # sleeps es"
| "sleeps (e # es) = sleeps es"

text \<open>The failures printed by \<open>debug\<close>, in order.\<close>

fun reports :: "event list \<Rightarrow> (message \<times> int) list" where
  "reports [] = []"
| "reports (Report m s # es) = (m, s) # reports es"
| "reports (e # es) = reports es"

text \<open>
  The nonces in the durable store after the writes of a trace, starting from \<open>n\<close>.
\<close>

fun nonces_after :: "event list \<Rightarrow> byte list option \<Rightarrow> byte list option" where
  "nonces_after [] n = n"
| "nonces_after (PutNonces b # es) n = nonces_after es (Some b)"
| "nonces_after (e # es) n = nonces_after es n"

text \<open>
  Every write of the nonces comes directly after a call \<open>beginOTAA(..., true)\<close> whose
  status took the \<open>else\<close> branch of the loop (\<open>state < RADIOLIB_ERR_NONE\<close> is false);
  \<open>prev\<close> is the event before the list.
\<close>

fun writes_follow_joins :: "event option \<Rightarrow> event list \<Rightarrow> bool" where
  "writes_follow_joins prev [] = True"
| "writes_follow_joins prev (PutNonces b # es) =
     ((case prev of Some (BeginOTAA True st) \<Rightarrow> \<not> st <s RADIOLIB_ERR_NONE | _ \<Rightarrow> False)
      \<and> writes_follow_joins (Some (PutNonces b)) es)"
| "writes_follow_joins prev (e # es) = writes_follow_joins (Some e) es"


text \<open>
  The failure streak after the joins of a trace, starting from \<open>s\<close>: a call
  \<open>beginOTAA(..., true)\<close> with a negative status adds one to it, a call with any other
  status sets it to 0, and no other action changes it.
\<close>

fun streak_after :: "event list \<Rightarrow> 'w::len word \<Rightarrow> 'w word" where
  "streak_after [] s = s"
| "streak_after (BeginOTAA True st # es) s =
     streak_after es (if st <s RADIOLIB_ERR_NONE then s + 1 else 0)"
| "streak_after (e # es) s = streak_after es s"

text \<open>What a trace holds after the first start of deep sleep.\<close>

fun after_sleep :: "event list \<Rightarrow> event list" where
  "after_sleep [] = []"
| "after_sleep (DeepSleepStart # es) = es"
| "after_sleep (e # es) = after_sleep es"


section \<open>Example runs\<close>

text \<open>
  The constants as RadioLib 6.5.0 and the example \<open>config.h\<close> have them (an uplink every
  five minutes); the size of the session buffer is of no consequence here.
\<close>

definition example_config :: config where
  "example_config =
     \<lparr>uplinkIntervalSeconds = 300, RADIOLIB_LORAWAN_NO_DOWNLINK = - 1116,
      RADIOLIB_ERR_RX_TIMEOUT = - 6, RADIOLIB_LORAWAN_SESSION_BUF_SIZE = 4\<rparr>"

text \<open>The same constants with an uplink every two hours.\<close>

definition two_hourly_config :: config where
  "two_hourly_config =
     \<lparr>uplinkIntervalSeconds = 7200, RADIOLIB_LORAWAN_NO_DOWNLINK = - 1116,
      RADIOLIB_ERR_RX_TIMEOUT = - 6, RADIOLIB_LORAWAN_SESSION_BUF_SIZE = 4\<rparr>"

text \<open>A boot in which no restore step succeeds and the join fails with status -1.\<close>

definition join_fails :: radio where
  "join_fails =
     \<lparr>radio_begin = 0, setBufferNonces = - 1, setBufferSession = - 1, beginOTAA_restore = - 1,
      beginOTAA_join = [(- 1, [])], sendReceive = 0, getBufferSession = [],
      digitalRead2 = 0, analogRead = 0, sleep_returns = False,
      getResetReason = ''Deep-Sleep Wake''\<rparr>"

text \<open>A boot in which the first join returns the status 2 and the second the status 0.\<close>

definition join_answers_two :: radio where
  "join_answers_two =
     \<lparr>radio_begin = 0, setBufferNonces = 0, setBufferSession = - 1, beginOTAA_restore = - 1,
      beginOTAA_join = [(2, [7]), (0, [8])], sendReceive = 0, getBufferSession = [],
      digitalRead2 = 0, analogRead = 0, sleep_returns = False,
      getResetReason = ''Deep-Sleep Wake''\<rparr>"

text \<open>A boot in which the session is resumed and the uplink gets no downlink.\<close>

definition resumes_no_downlink :: radio where
  "resumes_no_downlink =
     \<lparr>radio_begin = 0, setBufferNonces = 0, setBufferSession = 0, beginOTAA_restore = 0,
      beginOTAA_join = [], sendReceive = - 1116, getBufferSession = [1, 2, 3],
      digitalRead2 = 1, analogRead = 0x0102, sleep_returns = False,
      getResetReason = ''Deep-Sleep Wake''\<rparr>"

text \<open>
  A boot in which the first join fails, the second succeeds, and every call of the sleep
  primitive comes back.
\<close>

definition sleep_comes_back :: radio where
  "sleep_comes_back =
     \<lparr>radio_begin = 0, setBufferNonces = 0, setBufferSession = - 1, beginOTAA_restore = - 1,
      beginOTAA_join = [(- 1, []), (0, [7])], sendReceive = 0, getBufferSession = [],
      digitalRead2 = 0, analogRead = 0, sleep_returns = True,
      getResetReason = ''Deep-Sleep Wake''\<rparr>"

text \<open>
  The RTC variables of an ESP32 that has been woken 65535 times since power-on and has
  failed to join every time: the streak is 65535, and \<open>bootCount\<close>, which started at 1,
  is 0 again.
\<close>

definition after_65535_failed_boots :: esp32 where
  "after_65535_failed_boots =
     \<lparr>bootCount = 0, bootCountSinceUnsuccessfulJoin = 0xFFFF, LWsession = [], trace = [],
      store = Map.empty\<rparr>"

text \<open>The RTC variables of an ESP32 whose \<open>bootCount\<close> has reached 65535.\<close>

definition before_boot_65535 :: esp32 where
  "before_boot_65535 =
     \<lparr>bootCount = 0xFFFF, bootCountSinceUnsuccessfulJoin = 0, LWsession = [], trace = [],
      store = Map.empty\<rparr>"

text \<open>An ESP8266 whose RTC memory and EEPROM hold zeros and nothing else.\<close>

definition first_boot_ESP8266 :: esp8266 where
  "first_boot_ESP8266 =
     \<lparr>bootCount = 1, bootCountSinceUnsuccessfulJoin = 0, LWsession = [], trace = [],
      EEPROM = [], rtc_bootCount = 0, rtc_bootCountSinceUnsuccessfulJoin = 0,
      rtc_LWsession = []\<rparr>"

text \<open>
  An ESP8266 running the first sketch, which reads its counters from the RTC memory
  without ever initialising them, when block 4 of that memory holds \<open>0xFFFFFFFF\<close>.
\<close>

definition uninitialised_rtc_ESP8266 :: esp8266 where
  "uninitialised_rtc_ESP8266 =
     \<lparr>bootCount = 0, bootCountSinceUnsuccessfulJoin = 0, LWsession = [], trace = [],
      EEPROM = [], rtc_bootCount = 0, rtc_bootCountSinceUnsuccessfulJoin = 0xFFFFFFFF,
      rtc_LWsession = []\<rparr>"

text \<open>An RP2040 after a hardware reset: the scratch register is 0, the store is empty.\<close>

definition hardware_reset_RP2040 :: rp2040 where
  "hardware_reset_RP2040 =
     \<lparr>bootCount = 0, bootCountSinceUnsuccessfulJoin = 0, LWsession = [], trace = [],
      store = Map.empty, scratch1 = 0\<rparr>"

text \<open>
  The variables of an ESP32 at power-on with an empty store, at power-on with nonces in
  the store, and when it wakes for its second boot.
\<close>

definition first_boot :: esp32 where
  "first_boot = power_on_ESP32 [] Map.empty"

definition first_boot_with_nonces :: esp32 where
  "first_boot_with_nonces = power_on_ESP32 [] [''nonces'' \<mapsto> [1, 2]]"

definition second_boot :: esp32 where
  "second_boot = (power_on_ESP32 [] Map.empty)\<lparr>bootCount := 2\<rparr>"


section \<open>Reading a trace piece by piece\<close>

lemma sleeps_append: "sleeps (xs @ ys) = sleeps xs @ sleeps ys"
  by (induction xs rule: sleeps.induct) simp_all

lemma reports_append: "reports (xs @ ys) = reports xs @ reports ys"
  by (induction xs rule: reports.induct) simp_all

lemma nonces_after_append: "nonces_after (xs @ ys) n = nonces_after ys (nonces_after xs n)"
  by (induction xs n rule: nonces_after.induct) simp_all

lemma streak_after_append: "streak_after (xs @ ys) s = streak_after ys (streak_after xs s)"
  by (induction xs s rule: streak_after.induct) simp_all

lemma writes_follow_joins_append:
  "writes_follow_joins p (xs @ ys) =
     (writes_follow_joins p xs \<and> writes_follow_joins (if xs = [] then p else Some (last xs)) ys)"
proof (induction xs arbitrary: p)
  case Nil
  show ?case by simp
next
  case (Cons a xs)
  show ?case by (cases a) (simp_all add: Cons.IH)
qed


section \<open>The join backoff and the sleep timer\<close>

lemma unat_uint16_bound: "unat (s :: uint16_t) < 65536"
  using unsigned_less [of s, where 'a = nat] by simp

lemma sleepForSeconds_uint16:
  "unat (sleepForSeconds (s :: uint16_t)) = min ((unat s + 1) * 60) 180"
proof -
  have b: "unat s < 65536" by (rule unat_uint16_bound)
  have "unat ((ucast s + 1) * 60 :: uint32_t) = (unat s + 1) * 60"
    using b by (simp add: unat_word_ariths unsigned_ucast_eq take_bit_nat_eq_self)
  thus ?thesis
    by (simp add: sleepForSeconds_def min_def word_le_nat_alt word_less_nat_alt)
qed

text \<open>
  On ESP8266 the counter has 32 bits, as wide as \<open>unsigned long\<close>: the product agrees with
  the formula as long as it fits, and wraps around after that.
\<close>

lemma sleepForSeconds_uint32:
  assumes "unat (s :: uint32_t) < 71582788"
  shows "unat (sleepForSeconds s) = min ((unat s + 1) * 60) 180"
proof -
  have "unat ((ucast s + 1) * 60 :: uint32_t) = (unat s + 1) * 60"
    using assms by (simp add: unat_word_ariths)
  thus ?thesis
    by (simp add: sleepForSeconds_def min_def word_le_nat_alt word_less_nat_alt)
qed

lemma sleepForSeconds_uint32_wraps:
  "sleepForSeconds (71582788 :: uint32_t) = 44 \<and> sleepForSeconds (0xFFFFFFFF :: uint32_t) = 0"
  by (simp add: sleepForSeconds_def)

lemma sleepForSeconds_uint32_mod:
  "unat (sleepForSeconds (s :: uint32_t)) = min (((unat s + 1) * 60) mod 2 ^ 32) 180"
proof -
  define x where "x = (s + 1) * 60"
  have c: "unat x = ((unat s + 1) * 60) mod 2 ^ 32"
    unfolding x_def by (simp add: unat_word_ariths mod_simps) (simp only: add.commute)
  have d: "unat (min x 180) = min (unat x) 180"
    by (simp add: min_def word_le_nat_alt)
  have e: "sleepForSeconds s = min x 180"
    by (simp add: sleepForSeconds_def x_def)
  show ?thesis
    unfolding e d c by (rule refl)
qed

text \<open>
  C1. The join backoff of the ESP32 sketch (and of the RP2040 sketch, which has the same
  line and the same 16-bit counter) is a function of the failure streak alone: for every
  value \<open>s\<close> of the streak it is \<open>min ((s + 1) * 60) 180\<close> seconds, it is non-decreasing
  in \<open>s\<close>, and it is 180 for the streaks 2 and 10.
\<close>

theorem join_backoff_policy:
  "unat (sleepForSeconds (s :: uint16_t)) = min ((unat s + 1) * 60) 180
   \<and> (s \<le> t \<longrightarrow> sleepForSeconds s \<le> sleepForSeconds (t :: uint16_t))
   \<and> sleepForSeconds (2 :: uint16_t) = 180
   \<and> sleepForSeconds (10 :: uint16_t) = 180"
proof -
  have m: "s \<le> t \<longrightarrow> sleepForSeconds s \<le> sleepForSeconds t"
    by (simp add: word_le_nat_alt sleepForSeconds_uint16 min_def)
  have c2: "sleepForSeconds (2 :: uint16_t) = 180"
    by (simp add: sleepForSeconds_def)
  have c10: "sleepForSeconds (10 :: uint16_t) = 180"
    by (simp add: sleepForSeconds_def)
  show ?thesis
    using m c2 c10 sleepForSeconds_uint16 [of s] by blast
qed

theorem join_backoff_policy_witness:
  "(0 :: uint16_t) \<le> 5 \<and> sleepForSeconds (0 :: uint16_t) \<le> sleepForSeconds (5 :: uint16_t)
   \<and> unat (sleepForSeconds (0 :: uint16_t)) = 60"
  using join_backoff_policy [of 0 5] by simp

lemma microseconds_unat: "unat (microseconds s) = (unat s * 1000000) mod 2 ^ 32"
  by (simp add: microseconds_def unsigned_ucast_eq unat_word_ariths mod_simps mult.assoc
      take_bit_nat_eq_self)

lemma microseconds_exact_iff: "unat (microseconds s) = unat s * 1000000 \<longleftrightarrow> unat s \<le> 4294"
proof
  assume "unat (microseconds s) = unat s * 1000000"
  hence "unat s * 1000000 < 2 ^ 32"
    using unsigned_less [of "microseconds s", where 'a = nat] by (simp add: microseconds_unat)
  thus "unat s \<le> 4294" by simp
next
  assume "unat s \<le> 4294"
  hence "unat s * 1000000 < 2 ^ 32" by simp
  thus "unat (microseconds s) = unat s * 1000000" by (simp add: microseconds_unat)
qed

lemma gotoSleep_ESP32_eq:
  "gotoSleep_ESP32 env seconds w =
     Stop (if sleep_returns env then Restarted else Asleep)
       (w\<lparr>trace := trace w @ [GotoSleep seconds, TimerWakeup (microseconds seconds), DeepSleepStart]
             @ (if sleep_returns env then [Delay (5 * 60 * 1000), Restart] else [])\<rparr>)"
  by (simp add: gotoSleep_ESP32_def emit_def)

lemma gotoSleep_ESP8266_eq:
  "gotoSleep_ESP8266 env seconds w =
     Stop (if sleep_returns env then Restarted else Asleep)
       (w\<lparr>trace := trace w @ [GotoSleep seconds, DeepSleep (microseconds seconds)]
             @ (if sleep_returns env then [Delay (5 * 60 * 1000), Restart] else []),
          rtc_bootCount := bootCount w,
          rtc_bootCountSinceUnsuccessfulJoin := bootCountSinceUnsuccessfulJoin w\<rparr>)"
  by (simp add: gotoSleep_ESP8266_def emit_def)

text \<open>
  C10. \<open>gotoSleep\<close> of the ESP32 and ESP8266 sketches hands the sleep primitive the value
  \<open>seconds * 1000 * 1000\<close> computed in 32 bits: the wake-up delay in microseconds is
  \<open>(seconds * 10^6) mod 2^32\<close>, which is \<open>seconds * 10^6\<close> exactly when
  \<open>seconds \<le> 4294\<close>; a longer interval wraps around.
\<close>

theorem sleep_timer_wraps:
  "take 2 (drop (length (trace w)) (trace (world (gotoSleep_ESP32 env seconds w))))
     = [GotoSleep seconds, TimerWakeup (microseconds seconds)]
   \<and> drop (length (trace v)) (trace (world (gotoSleep_ESP8266 env seconds v)))
     = [GotoSleep seconds, DeepSleep (microseconds seconds)]
       @ (if sleep_returns env then [Delay (5 * 60 * 1000), Restart] else [])
   \<and> unat (microseconds seconds) = (unat seconds * 10 ^ 6) mod 2 ^ 32
   \<and> (unat (microseconds seconds) = unat seconds * 10 ^ 6 \<longleftrightarrow> unat seconds \<le> 4294)"
  using microseconds_exact_iff [of seconds]
  by (simp add: gotoSleep_ESP32_eq gotoSleep_ESP8266_eq microseconds_unat)


section \<open>Running the phases of \<open>setup\<close>\<close>

lemma world_andThen: "world (andThen m f) = (if ended m = None then world (f (world m)) else world m)"
  by (cases m) simp_all

lemma ended_andThen: "ended (andThen m f) = (if ended m = None then ended (f (world m)) else ended m)"
  by (cases m) simp_all

lemmas restore_defs =
  debug_def print_wakeup_reason_def restore_nonces_ESP32_def restore_session_def
  restore_activation_def restore_ESP32_def restore_RP2040_def recall_bootCount_RP2040_def
  restore_ESP8266_v1_def restore_ESP8266_def recall_bootCounts_ESP8266_def
  restore_nonces_ESP8266_def recall_session_ESP8266_def print_wakeup_reason_ESP8266_def
  emit_def Let_def

subsection \<open>restore phase, ESP32\<close>

lemma restore_ESP32_ended:
  "ended (restore_ESP32 env w) = (if radio_begin env \<noteq> RADIOLIB_ERR_NONE then Some Halted else None)"
  by (simp add: restore_defs split: option.splits)

lemma restore_ESP32_fields:
  "bootCount (world (restore_ESP32 env w)) = bootCount w + 1"
  "bootCountSinceUnsuccessfulJoin (world (restore_ESP32 env w)) = bootCountSinceUnsuccessfulJoin w"
  "LWsession (world (restore_ESP32 env w)) = LWsession w"
  "store (world (restore_ESP32 env w)) = store w"
  by (simp_all add: restore_defs split: option.splits)

lemma restore_ESP32_sleeps:
  "sleeps (trace (world (restore_ESP32 env w))) = sleeps (trace w)"
  by (simp add: restore_defs sleeps_append split: option.splits)

lemma restore_ESP32_nonces_after:
  "nonces_after (trace (world (restore_ESP32 env w))) n = nonces_after (trace w) n"
  by (simp add: restore_defs nonces_after_append split: option.splits)

lemma restore_ESP32_writes:
  "writes_follow_joins p (trace (world (restore_ESP32 env w))) = writes_follow_joins p (trace w)"
  by (simp add: restore_defs writes_follow_joins_append split: option.splits)

lemma restore_ESP32_reports:
  "radio_begin env = RADIOLIB_ERR_NONE \<Longrightarrow>
   reports (trace (world (restore_ESP32 env w))) =
     reports (trace w)
     @ (if store w ''nonces'' \<noteq> None \<and> setBufferNonces env \<noteq> RADIOLIB_ERR_NONE
        then [(Restoring_nonces_buffer_failed, sint (setBufferNonces env))] else [])
     @ (if setBufferSession env \<noteq> RADIOLIB_ERR_NONE \<and> 2 < bootCount w + 1
        then [(Restoring_session_buffer_failed, sint (setBufferSession env))] else [])
     @ (if beginOTAA_restore env \<noteq> RADIOLIB_ERR_NONE \<and> 2 < bootCount w + 1
        then [(Restore_session_failed, sint (beginOTAA_restore env))] else [])"
  by (simp add: restore_defs reports_append split: option.splits)

subsection \<open>join loop ESP32\<close>

lemma joined_ESP32_eq:
  "joined_ESP32 persist w =
     w\<lparr>bootCountSinceUnsuccessfulJoin := 0, trace := trace w @ [PutNonces persist, Delay 1000],
       store := (store w)(''nonces'' \<mapsto> persist)\<rparr>"
  by (simp add: joined_ESP32_def emit_def)

lemmas loop_ESP32_simps = gotoSleep_ESP32_eq joined_ESP32_eq emit_def Let_def

lemma join_loop_ESP32_fields:
  "bootCount (world (join_loop_ESP32 env answers state w)) = bootCount w"
  "LWsession (world (join_loop_ESP32 env answers state w)) = LWsession w"
  by (induction env answers state w rule: join_loop_ESP32.induct; simp add: loop_ESP32_simps)+

lemma join_loop_ESP32_reports:
  "reports (trace (world (join_loop_ESP32 env answers state w))) = reports (trace w)"
  by (induction env answers state w rule: join_loop_ESP32.induct)
     (simp_all add: loop_ESP32_simps reports_append)

lemma join_loop_ESP32_writes:
  "writes_follow_joins p (trace (world (join_loop_ESP32 env answers state w))) =
   writes_follow_joins p (trace w)"
  by (induction env answers state w rule: join_loop_ESP32.induct)
     (simp_all add: loop_ESP32_simps writes_follow_joins_append)

lemma join_loop_ESP32_store:
  "store w = s0(''nonces'' := nonces_after (trace w) n0) \<Longrightarrow>
   store (world (join_loop_ESP32 env answers state w)) =
     s0(''nonces'' := nonces_after (trace (world (join_loop_ESP32 env answers state w))) n0)"
  by (induction env answers state w rule: join_loop_ESP32.induct)
     (simp_all add: loop_ESP32_simps nonces_after_append)

lemma join_loop_ESP32_extends:
  "prefix (trace w) (trace (world (join_loop_ESP32 env answers state w)))"
proof (induction env answers state w rule: join_loop_ESP32.induct)
  case (1 env state w)
  show ?case by simp
next
  case (2 env st persist answers state w)
  show ?case
  proof (cases "state \<noteq> RADIOLIB_ERR_NONE \<and> \<not> st <s RADIOLIB_ERR_NONE")
    case True
    hence "prefix (trace (joined_ESP32 persist (emit (BeginOTAA True st) w)))
             (trace (world (join_loop_ESP32 env ((st, persist) # answers) state w)))"
      using "2.IH"(2) [of "emit (BeginOTAA True st) w"] by simp
    moreover have "prefix (trace w) (trace (joined_ESP32 persist (emit (BeginOTAA True st) w)))"
      by (simp add: loop_ESP32_simps)
    ultimately show ?thesis by (rule prefix_order.order_trans [rotated])
  next
    case False
    thus ?thesis by (auto simp: loop_ESP32_simps)
  qed
qed

subsection \<open>uplink ESP32\<close>

lemma uplink_ESP32_eq:
  "uplink_ESP32 cfg env w =
     Stop (if sleep_returns env then Restarted else Asleep)
       (w\<lparr>LWsession := getBufferSession env,
          trace := trace w
            @ [SendReceive [digitalRead2 env, highByte (analogRead env), lowByte (analogRead env)]
                 (sendReceive env)]
            @ (if sendReceive env \<noteq> RADIOLIB_LORAWAN_NO_DOWNLINK cfg
                  \<and> sendReceive env \<noteq> RADIOLIB_ERR_NONE
               then [Report Error_in_sendReceive (sint (sendReceive env))] else [])
            @ [GotoSleep (uplinkIntervalSeconds cfg),
               TimerWakeup (microseconds (uplinkIntervalSeconds cfg)), DeepSleepStart]
            @ (if sleep_returns env then [Delay (5 * 60 * 1000), Restart] else [])\<rparr>)"
  by (simp add: uplink_ESP32_def uplink_def debug_def gotoSleep_ESP32_eq emit_def Let_def)

subsection \<open>The nonces during a run of the ESP32 sketch\<close>

lemma setup_ESP32_nonces:
  assumes "trace w = []"
  shows "writes_follow_joins None (trace (world (setup_ESP32 cfg env w)))
     \<and> store (world (setup_ESP32 cfg env w)) =
        (store w)(''nonces'' := nonces_after (trace (world (setup_ESP32 cfg env w))) (store w ''nonces''))"
proof -
  let ?r = "world (restore_ESP32 env w)"
  let ?j = "world (join_loop_ESP32 env (beginOTAA_join env) (beginOTAA_restore env) ?r)"
  have r: "store ?r = (store w)(''nonces'' := nonces_after (trace ?r) (store w ''nonces''))"
    using assms by (simp add: restore_ESP32_fields restore_ESP32_nonces_after)
  have j: "store ?j = (store w)(''nonces'' := nonces_after (trace ?j) (store w ''nonces''))"
    using r by (rule join_loop_ESP32_store)
  have wj: "writes_follow_joins None (trace ?j)"
    using assms by (simp add: join_loop_ESP32_writes restore_ESP32_writes)
  have wr: "writes_follow_joins None (trace ?r)"
    using assms by (simp add: restore_ESP32_writes)
  show ?thesis
    using r j wj wr
    by (simp add: setup_ESP32_def world_andThen uplink_ESP32_eq nonces_after_append
        writes_follow_joins_append)
qed

subsection \<open>restore phase, ESP8266\<close>

lemma restore_ESP8266_v1_ended:
  "ended (restore_ESP8266_v1 env v) = (if radio_begin env \<noteq> RADIOLIB_ERR_NONE then Some Halted else None)"
  by (simp add: restore_defs)

lemma restore_ESP8266_v1_fields:
  "bootCount (world (restore_ESP8266_v1 env v)) = rtc_bootCount v + 1"
  "bootCountSinceUnsuccessfulJoin (world (restore_ESP8266_v1 env v)) = rtc_bootCountSinceUnsuccessfulJoin v"
  "EEPROM (world (restore_ESP8266_v1 env v)) = EEPROM v"
  "rtc_bootCount (world (restore_ESP8266_v1 env v)) = rtc_bootCount v"
  "rtc_bootCountSinceUnsuccessfulJoin (world (restore_ESP8266_v1 env v)) = rtc_bootCountSinceUnsuccessfulJoin v"
  "rtc_LWsession (world (restore_ESP8266_v1 env v)) = rtc_LWsession v"
  by (simp_all add: restore_defs)

lemma restore_ESP8266_v1_sleeps:
  "sleeps (trace (world (restore_ESP8266_v1 env v))) = sleeps (trace v)"
  by (simp add: restore_defs sleeps_append)

lemma restore_ESP8266_v1_reports:
  "radio_begin env = RADIOLIB_ERR_NONE \<Longrightarrow>
   reports (trace (world (restore_ESP8266_v1 env v))) =
     reports (trace v)
     @ (if setBufferNonces env \<noteq> RADIOLIB_ERR_NONE \<and> 2 < rtc_bootCount v + 1
        then [(Restoring_nonces_buffer_failed, sint (setBufferNonces env))] else [])
     @ (if setBufferSession env \<noteq> RADIOLIB_ERR_NONE \<and> 2 < rtc_bootCount v + 1
        then [(Restoring_session_buffer_failed, sint (setBufferSession env))] else [])
     @ (if beginOTAA_restore env \<noteq> RADIOLIB_ERR_NONE \<and> 2 < rtc_bootCount v + 1
        then [(Restore_session_failed, sint (beginOTAA_restore env))] else [])"
  by (simp add: restore_defs reports_append)

lemma restore_ESP8266_ended:
  "ended (restore_ESP8266 cfg env v) = (if radio_begin env \<noteq> RADIOLIB_ERR_NONE then Some Halted else None)"
  by (simp add: restore_defs)

lemma restore_ESP8266_fields:
  "bootCount (world (restore_ESP8266 cfg env v)) =
     (if getResetReason env \<noteq> ''Deep-Sleep Wake'' then 1 else rtc_bootCount v + 1)"
  "bootCountSinceUnsuccessfulJoin (world (restore_ESP8266 cfg env v)) =
     (if getResetReason env \<noteq> ''Deep-Sleep Wake'' then 0 else rtc_bootCountSinceUnsuccessfulJoin v)"
  "EEPROM (world (restore_ESP8266 cfg env v)) = EEPROM v"
  by (simp_all add: restore_defs)

lemma restore_ESP8266_nonces_after:
  "nonces_after (trace (world (restore_ESP8266 cfg env v))) n = nonces_after (trace v) n"
  by (simp add: restore_defs nonces_after_append)

lemma restore_ESP8266_writes:
  "writes_follow_joins p (trace (world (restore_ESP8266 cfg env v))) = writes_follow_joins p (trace v)"
  by (simp add: restore_defs writes_follow_joins_append)

subsection \<open>join loop ESP8266\<close>

lemma joined_ESP8266_eq:
  "joined_ESP8266 persist v =
     v\<lparr>bootCountSinceUnsuccessfulJoin := 0, trace := trace v @ [PutNonces persist, Delay 1000],
       EEPROM := persist\<rparr>"
  by (simp add: joined_ESP8266_def emit_def)

lemmas loop_ESP8266_simps = gotoSleep_ESP8266_eq joined_ESP8266_eq emit_def Let_def

lemma join_loop_ESP8266_fields:
  "bootCount (world (join_loop_ESP8266 env answers state v)) = bootCount v"
  "LWsession (world (join_loop_ESP8266 env answers state v)) = LWsession v"
  "rtc_LWsession (world (join_loop_ESP8266 env answers state v)) = rtc_LWsession v"
  by (induction env answers state v rule: join_loop_ESP8266.induct; simp add: loop_ESP8266_simps)+

lemma join_loop_ESP8266_reports:
  "reports (trace (world (join_loop_ESP8266 env answers state v))) = reports (trace v)"
  by (induction env answers state v rule: join_loop_ESP8266.induct)
     (simp_all add: loop_ESP8266_simps reports_append)

lemma join_loop_ESP8266_writes:
  "writes_follow_joins p (trace (world (join_loop_ESP8266 env answers state v))) =
   writes_follow_joins p (trace v)"
  by (induction env answers state v rule: join_loop_ESP8266.induct)
     (simp_all add: loop_ESP8266_simps writes_follow_joins_append)

lemma join_loop_ESP8266_EEPROM:
  "Some (EEPROM v) = nonces_after (trace v) n0 \<Longrightarrow>
   Some (EEPROM (world (join_loop_ESP8266 env answers state v))) =
     nonces_after (trace (world (join_loop_ESP8266 env answers state v))) n0"
  by (induction env answers state v rule: join_loop_ESP8266.induct)
     (simp_all add: loop_ESP8266_simps nonces_after_append)

lemma join_loop_ESP8266_extends:
  "prefix (trace v) (trace (world (join_loop_ESP8266 env answers state v)))"
proof (induction env answers state v rule: join_loop_ESP8266.induct)
  case (1 env state v)
  show ?case by simp
next
  case (2 env st persist answers state v)
  show ?case
  proof (cases "state \<noteq> RADIOLIB_ERR_NONE \<and> \<not> st <s RADIOLIB_ERR_NONE")
    case True
    hence "prefix (trace (joined_ESP8266 persist (emit (BeginOTAA True st) v)))
             (trace (world (join_loop_ESP8266 env ((st, persist) # answers) state v)))"
      using "2.IH"(2) [of "emit (BeginOTAA True st) v"] by simp
    moreover have "prefix (trace v) (trace (joined_ESP8266 persist (emit (BeginOTAA True st) v)))"
      by (simp add: loop_ESP8266_simps)
    ultimately show ?thesis by (rule prefix_order.order_trans [rotated])
  next
    case False
    thus ?thesis by (auto simp: loop_ESP8266_simps)
  qed
qed

lemma uplink_ESP8266_eq:
  "uplink_ESP8266 no_downlink cfg env v =
     Stop (if sleep_returns env then Restarted else Asleep)
       (v\<lparr>LWsession := getBufferSession env,
          trace := trace v
            @ [SendReceive [digitalRead2 env, highByte (analogRead env), lowByte (analogRead env)]
                 (sendReceive env)]
            @ (if sendReceive env \<noteq> no_downlink \<and> sendReceive env \<noteq> RADIOLIB_ERR_NONE
               then [Report Error_in_sendReceive (sint (sendReceive env))] else [])
            @ [GotoSleep (uplinkIntervalSeconds cfg),
               DeepSleep (microseconds (uplinkIntervalSeconds cfg))]
            @ (if sleep_returns env then [Delay (5 * 60 * 1000), Restart] else []),
          rtc_bootCount := bootCount v,
          rtc_bootCountSinceUnsuccessfulJoin := bootCountSinceUnsuccessfulJoin v,
          rtc_LWsession := getBufferSession env\<rparr>)"
  by (simp add: uplink_ESP8266_def uplink_def debug_def gotoSleep_ESP8266_eq emit_def Let_def)

subsection \<open>RP2040\<close>

lemma gotoSleep_RP2040_eq:
  "gotoSleep_RP2040 env seconds r =
     (if sleep_returns env then Next else Stop Asleep)
       (r\<lparr>trace := trace r @ [GotoSleep seconds, Delay 100, PicoSleep seconds],
          scratch1 := ucast (bootCount r)\<rparr>)"
  by (simp add: gotoSleep_RP2040_def pico_sleep_def emit_def)

lemma restore_RP2040_fields:
  "bootCount (world (restore_RP2040 env r)) =
     (if ucast (scratch1 r) = (0 :: uint16_t) then 1 else ucast (scratch1 r))"
  "bootCountSinceUnsuccessfulJoin (world (restore_RP2040 env r)) =
     (if ucast (scratch1 r) = (0 :: uint16_t) then 0 else bootCountSinceUnsuccessfulJoin r)"
  "scratch1 (world (restore_RP2040 env r)) = scratch1 r"
  by (simp_all add: restore_defs split: option.splits)

lemmas loop_RP2040_simps = gotoSleep_RP2040_eq joined_ESP32_eq emit_def Let_def

lemma join_loop_RP2040_fields:
  "bootCount (world (join_loop_RP2040 env answers state r)) = bootCount r"
  by (induction env answers state r rule: join_loop_RP2040.induct)
     (simp_all add: loop_RP2040_simps)

lemma uplink_RP2040_eq:
  "uplink_RP2040 cfg env r =
     Stop (if sleep_returns env then Restarted else Asleep)
       (r\<lparr>LWsession := getBufferSession env,
          trace := trace r
            @ [SendReceive [0xDE, 0xAD, 0xBE, 0xEF] (sendReceive env)]
            @ (if sendReceive env \<noteq> RADIOLIB_LORAWAN_NO_DOWNLINK cfg
                  \<and> sendReceive env \<noteq> RADIOLIB_ERR_NONE
               then [Report Error_in_sendReceive (sint (sendReceive env))] else [])
            @ [GotoSleep (uplinkIntervalSeconds cfg), Delay 100,
               PicoSleep (uplinkIntervalSeconds cfg)]
            @ (if sleep_returns env then [Restart] else []),
          scratch1 := ucast (bootCount r)\<rparr>)"
  by (simp add: uplink_RP2040_def uplink_def debug_def gotoSleep_RP2040_eq emit_def Let_def)

lemma setup_RP2040_bootCount:
  "bootCount (world (setup_RP2040 cfg env r)) =
     (if ucast (scratch1 r) = (0 :: uint16_t) then 1 else ucast (scratch1 r))"
  by (simp add: setup_RP2040_def world_andThen uplink_RP2040_eq join_loop_RP2040_fields
      restore_RP2040_fields)


section \<open>A failed join\<close>

lemma setup_ESP32_join_fails:
  assumes "radio_begin env = RADIOLIB_ERR_NONE" "beginOTAA_restore env \<noteq> RADIOLIB_ERR_NONE"
    "beginOTAA_join env = (st, persist) # answers" "st <s RADIOLIB_ERR_NONE"
  shows "bootCountSinceUnsuccessfulJoin (world (setup_ESP32 cfg env w)) =
           bootCountSinceUnsuccessfulJoin w + 1"
    and "sleeps (trace (world (setup_ESP32 cfg env w))) =
           sleeps (trace w) @ [sleepForSeconds (bootCountSinceUnsuccessfulJoin w)]"
    and "ended (setup_ESP32 cfg env w) = Some (if sleep_returns env then Restarted else Asleep)"
  using assms
  by (simp_all add: setup_ESP32_def world_andThen ended_andThen restore_ESP32_ended
      loop_ESP32_simps restore_ESP32_fields restore_ESP32_sleeps sleeps_append)

lemma setup_ESP8266_v1_join_fails:
  assumes "radio_begin env = RADIOLIB_ERR_NONE" "beginOTAA_restore env \<noteq> RADIOLIB_ERR_NONE"
    "beginOTAA_join env = (st, persist) # answers" "st <s RADIOLIB_ERR_NONE"
  shows "bootCountSinceUnsuccessfulJoin (world (setup_ESP8266_v1 cfg env v)) =
           rtc_bootCountSinceUnsuccessfulJoin v + 1"
    and "rtc_bootCountSinceUnsuccessfulJoin (world (setup_ESP8266_v1 cfg env v)) =
           rtc_bootCountSinceUnsuccessfulJoin v + 1"
    and "sleeps (trace (world (setup_ESP8266_v1 cfg env v))) =
           sleeps (trace v) @ [sleepForSeconds (rtc_bootCountSinceUnsuccessfulJoin v)]"
    and "ended (setup_ESP8266_v1 cfg env v) = Some (if sleep_returns env then Restarted else Asleep)"
  using assms
  by (simp_all add: setup_ESP8266_v1_def world_andThen ended_andThen restore_ESP8266_v1_ended
      loop_ESP8266_simps restore_ESP8266_v1_fields restore_ESP8266_v1_sleeps sleeps_append)

text \<open>
  C2, as the claim states it, fails on the first ESP8266 sketch: the streak is a
  \<open>uint32_t\<close> read from RTC memory that the sketch never initialises, and
  \<open>(s + 1) * 60\<close> is computed in 32 bits. With \<open>0xFFFFFFFF\<close> in the RTC memory a failed
  join (status -1) calls \<open>gotoSleep(0)\<close>, where the policy \<open>min ((s + 1) * 60) 180\<close> gives
  180 seconds, and the increment leaves the streak at 0.
\<close>

theorem join_failure_backoff_counterexample:
  "rtc_bootCountSinceUnsuccessfulJoin uninitialised_rtc_ESP8266 = 0xFFFFFFFF
   \<and> trace (world (setup_ESP8266_v1 example_config join_fails uninitialised_rtc_ESP8266)) =
       [Delay 2000, SetBufferNonces [], SetBufferSession [], BeginOTAA False (- 1),
        BeginOTAA True (- 1), GotoSleep 0, DeepSleep 0]
   \<and> bootCountSinceUnsuccessfulJoin
       (world (setup_ESP8266_v1 example_config join_fails uninitialised_rtc_ESP8266)) = 0
   \<and> min ((unat (rtc_bootCountSinceUnsuccessfulJoin uninitialised_rtc_ESP8266) + 1) * 60) 180
       = (180 :: nat)"
  by (simp add: setup_ESP8266_v1_def restore_defs loop_ESP8266_simps join_fails_def
      uninitialised_rtc_ESP8266_def RADIOLIB_ERR_NONE_def word_sless_alt sleepForSeconds_def
      microseconds_def)

text \<open>
  C2, amended. In the join loop of the ESP32 sketch and of the first ESP8266 sketch,
  every failed join increments the failure streak, in the unsigned arithmetic of the
  counter, and then sleeps for the backoff, which the same statement computes from the
  streak \<open>s\<close> as it was before the increment. On ESP32 (a 16-bit streak) that is
  \<open>min ((s + 1) * 60) 180\<close> seconds for every \<open>s\<close>. On ESP8266 (a 32-bit streak \<open>n\<close>) it is
  \<open>min (((n + 1) * 60) mod 2^32) 180\<close> seconds, which is \<open>min ((n + 1) * 60) 180\<close> for every
  \<open>n\<close> below 71582788. From a cold boot of the ESP32, and from a streak of 0 in the RTC
  memory of the ESP8266, two boots whose joins fail (the second being the wake-up from
  the sleep of the first) sleep 60 and then 120 seconds.
\<close>

theorem join_failure_backoff:
  assumes "radio_begin e1 = RADIOLIB_ERR_NONE" "beginOTAA_restore e1 \<noteq> RADIOLIB_ERR_NONE"
    "beginOTAA_join e1 = (s1, p1) # a1" "s1 <s RADIOLIB_ERR_NONE"
    and "radio_begin e2 = RADIOLIB_ERR_NONE" "beginOTAA_restore e2 \<noteq> RADIOLIB_ERR_NONE"
    "beginOTAA_join e2 = (s2, p2) # a2" "s2 <s RADIOLIB_ERR_NONE"
  shows "bootCountSinceUnsuccessfulJoin (world (setup_ESP32 cfg e1 w)) =
           bootCountSinceUnsuccessfulJoin w + 1
    \<and> sleeps (trace (world (setup_ESP32 cfg e1 w))) =
        sleeps (trace w) @ [sleepForSeconds (bootCountSinceUnsuccessfulJoin w)]
    \<and> ended (setup_ESP32 cfg e1 w) = Some (if sleep_returns e1 then Restarted else Asleep)
    \<and> (\<not> sleep_returns e1 \<longrightarrow>
        sleeps (trace (world (setup_ESP32 cfg e2 (world (setup_ESP32 cfg e1
          (power_on_ESP32 session flash)))))) = [60, 120])
    \<and> bootCountSinceUnsuccessfulJoin (world (setup_ESP8266_v1 cfg e1 v)) =
        rtc_bootCountSinceUnsuccessfulJoin v + 1
    \<and> rtc_bootCountSinceUnsuccessfulJoin (world (setup_ESP8266_v1 cfg e1 v)) =
        rtc_bootCountSinceUnsuccessfulJoin v + 1
    \<and> sleeps (trace (world (setup_ESP8266_v1 cfg e1 v))) =
        sleeps (trace v) @ [sleepForSeconds (rtc_bootCountSinceUnsuccessfulJoin v)]
    \<and> ended (setup_ESP8266_v1 cfg e1 v) = Some (if sleep_returns e1 then Restarted else Asleep)
    \<and> (\<not> sleep_returns e1 \<longrightarrow> rtc_bootCountSinceUnsuccessfulJoin v = 0 \<longrightarrow>
        sleeps (trace (world (setup_ESP8266_v1 cfg e2 (world (setup_ESP8266_v1 cfg e1 v))))) =
        sleeps (trace v) @ [60, 120])
    \<and> (state \<noteq> RADIOLIB_ERR_NONE \<longrightarrow> st <s RADIOLIB_ERR_NONE \<longrightarrow>
        bootCountSinceUnsuccessfulJoin
          (world (join_loop_ESP32 env ((st, persist) # answers) state w)) =
          bootCountSinceUnsuccessfulJoin w + 1
      \<and> sleeps (trace (world (join_loop_ESP32 env ((st, persist) # answers) state w))) =
          sleeps (trace w) @ [sleepForSeconds (bootCountSinceUnsuccessfulJoin w)]
      \<and> bootCountSinceUnsuccessfulJoin
          (world (join_loop_ESP8266 env ((st, persist) # answers) state v)) =
          bootCountSinceUnsuccessfulJoin v + 1
      \<and> sleeps (trace (world (join_loop_ESP8266 env ((st, persist) # answers) state v))) =
          sleeps (trace v) @ [sleepForSeconds (bootCountSinceUnsuccessfulJoin v)])
    \<and> unat (sleepForSeconds (bootCountSinceUnsuccessfulJoin w)) =
        min ((unat (bootCountSinceUnsuccessfulJoin w) + 1) * 60) 180
    \<and> unat (sleepForSeconds (n :: uint32_t)) = min (((unat n + 1) * 60) mod 2 ^ 32) 180
    \<and> (unat (n :: uint32_t) < 71582788 \<longrightarrow>
        unat (sleepForSeconds n) = min ((unat n + 1) * 60) 180)"
proof -
  note f1 = setup_ESP32_join_fails [OF assms(1-4)]
  note f2 = setup_ESP32_join_fails [OF assms(5-8)]
  note g1 = setup_ESP8266_v1_join_fails [OF assms(1-4)]
  note g2 = setup_ESP8266_v1_join_fails [OF assms(5-8)]
  have a: "\<not> sleep_returns e1 \<longrightarrow>
        sleeps (trace (world (setup_ESP32 cfg e2 (world (setup_ESP32 cfg e1
          (power_on_ESP32 session flash)))))) = [60, 120]"
    by (simp add: f1 f2 power_on_ESP32_def sleepForSeconds_def)
  have b: "\<not> sleep_returns e1 \<longrightarrow> rtc_bootCountSinceUnsuccessfulJoin v = 0 \<longrightarrow>
        sleeps (trace (world (setup_ESP8266_v1 cfg e2 (world (setup_ESP8266_v1 cfg e1 v))))) =
        sleeps (trace v) @ [60, 120]"
    by (simp add: g1 g2 sleepForSeconds_def)
  have c: "state \<noteq> RADIOLIB_ERR_NONE \<longrightarrow> st <s RADIOLIB_ERR_NONE \<longrightarrow>
        bootCountSinceUnsuccessfulJoin
          (world (join_loop_ESP32 env ((st, persist) # answers) state w)) =
          bootCountSinceUnsuccessfulJoin w + 1
      \<and> sleeps (trace (world (join_loop_ESP32 env ((st, persist) # answers) state w))) =
          sleeps (trace w) @ [sleepForSeconds (bootCountSinceUnsuccessfulJoin w)]
      \<and> bootCountSinceUnsuccessfulJoin
          (world (join_loop_ESP8266 env ((st, persist) # answers) state v)) =
          bootCountSinceUnsuccessfulJoin v + 1
      \<and> sleeps (trace (world (join_loop_ESP8266 env ((st, persist) # answers) state v))) =
          sleeps (trace v) @ [sleepForSeconds (bootCountSinceUnsuccessfulJoin v)]"
    by (simp add: loop_ESP32_simps loop_ESP8266_simps sleeps_append)
  have d: "unat (sleepForSeconds (bootCountSinceUnsuccessfulJoin w)) =
        min ((unat (bootCountSinceUnsuccessfulJoin w) + 1) * 60) 180"
    by (rule sleepForSeconds_uint16)
  have e: "unat (sleepForSeconds n) = min (((unat n + 1) * 60) mod 2 ^ 32) 180"
    by (rule sleepForSeconds_uint32_mod)
  have f: "unat n < 71582788 \<longrightarrow> unat (sleepForSeconds n) = min ((unat n + 1) * 60) 180"
    using sleepForSeconds_uint32 [of n] by (rule impI)
  from f1(1,2,3) a g1(1,2,3,4) b c d e f show ?thesis
    by (intro conjI)
qed

theorem join_failure_backoff_witness:
  "sleeps (trace (world (setup_ESP32 example_config join_fails
      (world (setup_ESP32 example_config join_fails first_boot))))) = [60, 120]
   \<and> bootCountSinceUnsuccessfulJoin (world (setup_ESP32 example_config join_fails
      first_boot)) = 1
   \<and> sleeps (trace (world (setup_ESP8266_v1 example_config join_fails
      (world (setup_ESP8266_v1 example_config join_fails first_boot_ESP8266))))) = [60, 120]
   \<and> unat (sleepForSeconds (1 :: uint32_t)) = 120"
  using join_failure_backoff [where ?e1.0 = join_fails and ?s1.0 = "- 1" and ?p1.0 = "[]"
      and ?a1.0 = "[]" and ?e2.0 = join_fails and ?s2.0 = "- 1" and ?p2.0 = "[]" and ?a2.0 = "[]"
      and cfg = example_config and w = first_boot and session = "[]"
      and flash = Map.empty and v = first_boot_ESP8266 and n = 1]
  by (simp add: join_fails_def RADIOLIB_ERR_NONE_def word_sless_alt power_on_ESP32_def
      first_boot_def first_boot_ESP8266_def)


section \<open>A join with a positive status\<close>

lemma not_sless_of_pos:
  "0 <s (s :: int16_t) \<Longrightarrow> \<not> s <s RADIOLIB_ERR_NONE \<and> s \<noteq> RADIOLIB_ERR_NONE"
  by (auto simp: RADIOLIB_ERR_NONE_def word_sless_alt)

lemma join_loop_ESP32_success:
  assumes "state \<noteq> RADIOLIB_ERR_NONE" and "\<not> st <s RADIOLIB_ERR_NONE"
  shows "join_loop_ESP32 env ((st, persist) # answers) state w =
           join_loop_ESP32 env answers st (joined_ESP32 persist (emit (BeginOTAA True st) w))"
  using assms by (simp add: Let_def)

lemma join_loop_ESP8266_success:
  assumes "state \<noteq> RADIOLIB_ERR_NONE" and "\<not> st <s RADIOLIB_ERR_NONE"
  shows "join_loop_ESP8266 env ((st, persist) # answers) state v =
           join_loop_ESP8266 env answers st (joined_ESP8266 persist (emit (BeginOTAA True st) v))"
  using assms by (simp add: Let_def)

lemma join_loop_ESP32_attempt:
  assumes "state \<noteq> RADIOLIB_ERR_NONE"
  shows "prefix (trace w @ [BeginOTAA True st])
           (trace (world (join_loop_ESP32 env ((st, persist) # answers) state w)))"
proof (cases "st <s RADIOLIB_ERR_NONE")
  case True
  thus ?thesis using assms by (simp add: loop_ESP32_simps)
next
  case False
  let ?w1 = "joined_ESP32 persist (emit (BeginOTAA True st) w)"
  have "prefix (trace w @ [BeginOTAA True st]) (trace ?w1)"
    by (simp add: loop_ESP32_simps)
  moreover have "prefix (trace ?w1) (trace (world (join_loop_ESP32 env answers st ?w1)))"
    by (rule join_loop_ESP32_extends)
  ultimately have "prefix (trace w @ [BeginOTAA True st])
      (trace (world (join_loop_ESP32 env answers st ?w1)))"
    by (rule prefix_order.order_trans)
  thus ?thesis
    by (simp only: join_loop_ESP32_success [OF assms False])
qed

lemma join_loop_ESP8266_attempt:
  assumes "state \<noteq> RADIOLIB_ERR_NONE"
  shows "prefix (trace v @ [BeginOTAA True st])
           (trace (world (join_loop_ESP8266 env ((st, persist) # answers) state v)))"
proof (cases "st <s RADIOLIB_ERR_NONE")
  case True
  thus ?thesis using assms by (simp add: loop_ESP8266_simps)
next
  case False
  let ?v1 = "joined_ESP8266 persist (emit (BeginOTAA True st) v)"
  have "prefix (trace v @ [BeginOTAA True st]) (trace ?v1)"
    by (simp add: loop_ESP8266_simps)
  moreover have "prefix (trace ?v1) (trace (world (join_loop_ESP8266 env answers st ?v1)))"
    by (rule join_loop_ESP8266_extends)
  ultimately have "prefix (trace v @ [BeginOTAA True st])
      (trace (world (join_loop_ESP8266 env answers st ?v1)))"
    by (rule prefix_order.order_trans)
  thus ?thesis
    by (simp only: join_loop_ESP8266_success [OF assms False])
qed


text \<open>
  C9. When a fresh join returns a status \<open>s > 0\<close>, the loop takes its success branch: the
  nonces are written to the durable store, the failure streak is reset to 0 and the
  guard delay of one second is applied; the condition of the loop still holds, and the
  next thing the loop does is another fresh join.
\<close>

theorem positive_join_status_loops:
  assumes "0 <s s" and "state \<noteq> RADIOLIB_ERR_NONE"
  shows "join_loop_ESP32 env ((s, persist) # answers) state w =
           join_loop_ESP32 env answers s (joined_ESP32 persist (emit (BeginOTAA True s) w))
    \<and> store (joined_ESP32 persist (emit (BeginOTAA True s) w)) ''nonces'' = Some persist
    \<and> bootCountSinceUnsuccessfulJoin (joined_ESP32 persist (emit (BeginOTAA True s) w)) = 0
    \<and> trace (joined_ESP32 persist (emit (BeginOTAA True s) w)) =
        trace w @ [BeginOTAA True s, PutNonces persist, Delay 1000]
    \<and> s \<noteq> RADIOLIB_ERR_NONE
    \<and> prefix (trace w @ [BeginOTAA True s, PutNonces persist, Delay 1000, BeginOTAA True s'])
        (trace (world (join_loop_ESP32 env ((s, persist) # (s', persist') # answers) state w)))
    \<and> join_loop_ESP8266 env ((s, persist) # answers) state v =
           join_loop_ESP8266 env answers s (joined_ESP8266 persist (emit (BeginOTAA True s) v))
    \<and> EEPROM (joined_ESP8266 persist (emit (BeginOTAA True s) v)) = persist
    \<and> bootCountSinceUnsuccessfulJoin (joined_ESP8266 persist (emit (BeginOTAA True s) v)) = 0
    \<and> trace (joined_ESP8266 persist (emit (BeginOTAA True s) v)) =
        trace v @ [BeginOTAA True s, PutNonces persist, Delay 1000]
    \<and> prefix (trace v @ [BeginOTAA True s, PutNonces persist, Delay 1000, BeginOTAA True s'])
        (trace (world (join_loop_ESP8266 env ((s, persist) # (s', persist') # answers) state v)))"
proof -
  have p1: "\<not> s <s RADIOLIB_ERR_NONE" and p2: "s \<noteq> RADIOLIB_ERR_NONE"
    using not_sless_of_pos [OF assms(1)] by simp_all
  let ?w1 = "joined_ESP32 persist (emit (BeginOTAA True s) w)"
  let ?v1 = "joined_ESP8266 persist (emit (BeginOTAA True s) v)"
  have tw: "trace ?w1 = trace w @ [BeginOTAA True s, PutNonces persist, Delay 1000]"
    by (simp add: loop_ESP32_simps)
  have tv: "trace ?v1 = trace v @ [BeginOTAA True s, PutNonces persist, Delay 1000]"
    by (simp add: loop_ESP8266_simps)
  have c1: "join_loop_ESP32 env ((s, persist) # answers) state w = join_loop_ESP32 env answers s ?w1"
    by (rule join_loop_ESP32_success [OF assms(2) p1])
  have c2: "store ?w1 ''nonces'' = Some persist"
    by (simp add: loop_ESP32_simps)
  have c3: "bootCountSinceUnsuccessfulJoin ?w1 = 0"
    by (simp add: loop_ESP32_simps)
  have "prefix (trace ?w1 @ [BeginOTAA True s'])
      (trace (world (join_loop_ESP32 env ((s', persist') # answers) s ?w1)))"
    by (rule join_loop_ESP32_attempt [OF p2])
  hence c6: "prefix (trace w @ [BeginOTAA True s, PutNonces persist, Delay 1000, BeginOTAA True s'])
      (trace (world (join_loop_ESP32 env ((s, persist) # (s', persist') # answers) state w)))"
    by (simp only: join_loop_ESP32_success [OF assms(2) p1] tw append_assoc append_Cons append_Nil)
  have d1: "join_loop_ESP8266 env ((s, persist) # answers) state v =
      join_loop_ESP8266 env answers s ?v1"
    by (rule join_loop_ESP8266_success [OF assms(2) p1])
  have d2: "EEPROM ?v1 = persist"
    by (simp add: loop_ESP8266_simps)
  have d3: "bootCountSinceUnsuccessfulJoin ?v1 = 0"
    by (simp add: loop_ESP8266_simps)
  have "prefix (trace ?v1 @ [BeginOTAA True s'])
      (trace (world (join_loop_ESP8266 env ((s', persist') # answers) s ?v1)))"
    by (rule join_loop_ESP8266_attempt [OF p2])
  hence d6: "prefix (trace v @ [BeginOTAA True s, PutNonces persist, Delay 1000, BeginOTAA True s'])
      (trace (world (join_loop_ESP8266 env ((s, persist) # (s', persist') # answers) state v)))"
    by (simp only: join_loop_ESP8266_success [OF assms(2) p1] tv append_assoc append_Cons append_Nil)
  from c1 c2 c3 tw p2 c6 d1 d2 d3 tv d6 show ?thesis
    by (intro conjI)
qed

theorem positive_join_status_loops_witness:
  "prefix [BeginOTAA True 2, PutNonces [7], Delay 1000, BeginOTAA True 0]
     (trace (world (join_loop_ESP32 join_answers_two [(2, [7]), (0, [8])] (- 1)
        first_boot)))"
  using positive_join_status_loops [of 2 "- 1" join_answers_two "[7]" "[]"
      first_boot 0 "[8]"]
  by (simp add: RADIOLIB_ERR_NONE_def word_sless_alt power_on_ESP32_def first_boot_def)


section \<open>Writes of the nonces\<close>

lemma setup_ESP8266_nonces:
  assumes "trace v = []"
  shows "writes_follow_joins None (trace (world (setup_ESP8266 cfg env v)))
     \<and> Some (EEPROM (world (setup_ESP8266 cfg env v))) =
        nonces_after (trace (world (setup_ESP8266 cfg env v))) (Some (EEPROM v))"
proof -
  let ?r = "world (restore_ESP8266 cfg env v)"
  let ?j = "world (join_loop_ESP8266 env (beginOTAA_join env) (beginOTAA_restore env) ?r)"
  have r: "Some (EEPROM ?r) = nonces_after (trace ?r) (Some (EEPROM v))"
    using assms by (simp add: restore_ESP8266_fields restore_ESP8266_nonces_after)
  have j: "Some (EEPROM ?j) = nonces_after (trace ?j) (Some (EEPROM v))"
    using r by (rule join_loop_ESP8266_EEPROM)
  have wj: "writes_follow_joins None (trace ?j)"
    using assms by (simp add: join_loop_ESP8266_writes restore_ESP8266_writes)
  have wr: "writes_follow_joins None (trace ?r)"
    using assms by (simp add: restore_ESP8266_writes)
  show ?thesis
    using r j wj wr
    by (simp add: setup_ESP8266_def world_andThen uplink_ESP8266_eq nonces_after_append
        writes_follow_joins_append)
qed

text \<open>
  C3. During a run of \<open>setup\<close> (ESP32 and second ESP8266 sketch) every write of the
  nonces comes directly after a join whose status took the success branch of the loop,
  and the durable store changes through these writes only: a failed join, the restore
  steps, the uplink and the sleep leave the stored nonces as they are.
\<close>

theorem nonces_written_only_after_join:
  "writes_follow_joins None (trace (world (setup_ESP32 cfg env (w\<lparr>trace := []\<rparr>))))
   \<and> store (world (setup_ESP32 cfg env (w\<lparr>trace := []\<rparr>))) =
      (store w)(''nonces'' :=
         nonces_after (trace (world (setup_ESP32 cfg env (w\<lparr>trace := []\<rparr>)))) (store w ''nonces''))
   \<and> writes_follow_joins None (trace (world (setup_ESP8266 cfg env (v\<lparr>trace := []\<rparr>))))
   \<and> Some (EEPROM (world (setup_ESP8266 cfg env (v\<lparr>trace := []\<rparr>)))) =
      nonces_after (trace (world (setup_ESP8266 cfg env (v\<lparr>trace := []\<rparr>)))) (Some (EEPROM v))
   \<and> (st <s RADIOLIB_ERR_NONE \<longrightarrow>
        store (world (join_loop_ESP32 env ((st, persist) # answers) state w)) = store w
      \<and> EEPROM (world (join_loop_ESP8266 env ((st, persist) # answers) state v)) = EEPROM v)
   \<and> store (world (restore_ESP32 env w)) = store w
   \<and> EEPROM (world (restore_ESP8266 cfg env v)) = EEPROM v
   \<and> store (world (uplink_ESP32 cfg env w)) = store w
   \<and> EEPROM (world (uplink_ESP8266 (RADIOLIB_LORAWAN_NO_DOWNLINK cfg) cfg env v)) = EEPROM v
   \<and> store (world (gotoSleep_ESP32 env seconds w)) = store w
   \<and> EEPROM (world (gotoSleep_ESP8266 env seconds v)) = EEPROM v"
proof -
  have a: "writes_follow_joins None (trace (world (setup_ESP32 cfg env (w\<lparr>trace := []\<rparr>))))
   \<and> store (world (setup_ESP32 cfg env (w\<lparr>trace := []\<rparr>))) =
      (store w)(''nonces'' :=
         nonces_after (trace (world (setup_ESP32 cfg env (w\<lparr>trace := []\<rparr>)))) (store w ''nonces''))"
    using setup_ESP32_nonces [of "w\<lparr>trace := []\<rparr>" cfg env] by simp
  have b: "writes_follow_joins None (trace (world (setup_ESP8266 cfg env (v\<lparr>trace := []\<rparr>))))
   \<and> Some (EEPROM (world (setup_ESP8266 cfg env (v\<lparr>trace := []\<rparr>)))) =
      nonces_after (trace (world (setup_ESP8266 cfg env (v\<lparr>trace := []\<rparr>)))) (Some (EEPROM v))"
    using setup_ESP8266_nonces [of "v\<lparr>trace := []\<rparr>" cfg env] by simp
  have c: "st <s RADIOLIB_ERR_NONE \<longrightarrow>
        store (world (join_loop_ESP32 env ((st, persist) # answers) state w)) = store w
      \<and> EEPROM (world (join_loop_ESP8266 env ((st, persist) # answers) state v)) = EEPROM v"
    by (simp add: loop_ESP32_simps loop_ESP8266_simps)
  have d: "store (world (restore_ESP32 env w)) = store w
   \<and> EEPROM (world (restore_ESP8266 cfg env v)) = EEPROM v
   \<and> store (world (uplink_ESP32 cfg env w)) = store w
   \<and> EEPROM (world (uplink_ESP8266 (RADIOLIB_LORAWAN_NO_DOWNLINK cfg) cfg env v)) = EEPROM v
   \<and> store (world (gotoSleep_ESP32 env seconds w)) = store w
   \<and> EEPROM (world (gotoSleep_ESP8266 env seconds v)) = EEPROM v"
    by (simp add: restore_ESP32_fields restore_ESP8266_fields uplink_ESP32_eq uplink_ESP8266_eq
        gotoSleep_ESP32_eq gotoSleep_ESP8266_eq)
  from a b c d show ?thesis by (intro conjI) (elim conjE, assumption)+
qed

theorem nonces_written_only_after_join_witness:
  "(- 1 :: int16_t) <s RADIOLIB_ERR_NONE
   \<and> store (world (join_loop_ESP32 join_fails [(- 1, [5])] (- 1)
        first_boot_with_nonces)) ''nonces'' = Some [1, 2]"
proof -
  have h: "(- 1 :: int16_t) <s RADIOLIB_ERR_NONE"
    by (simp add: RADIOLIB_ERR_NONE_def word_sless_alt)
  have "store (world (join_loop_ESP32 join_fails ((- 1, [5]) # []) (- 1)
        first_boot_with_nonces)) = store first_boot_with_nonces"
    using h nonces_written_only_after_join [where env = join_fails and st = "- 1"
        and persist = "[5]" and answers = "[]" and state = "- 1"
        and w = first_boot_with_nonces]
    by blast
  thus ?thesis using h by (simp add: power_on_ESP32_def first_boot_with_nonces_def)
qed


section \<open>The uplink\<close>

lemma andThen_Next: "ended m = None \<Longrightarrow> andThen m f = f (world m)"
  by (cases m) simp_all

lemma setup_ESP32_reaches_uplink:
  assumes "ended (restore_ESP32 env w) = None"
    and "ended (join_loop_ESP32 env (beginOTAA_join env) (beginOTAA_restore env)
           (world (restore_ESP32 env w))) = None"
  shows "setup_ESP32 cfg env w =
     uplink_ESP32 cfg env (world (join_loop_ESP32 env (beginOTAA_join env) (beginOTAA_restore env)
       (world (restore_ESP32 env w))))"
  using assms by (simp add: setup_ESP32_def andThen_Next)

lemma setup_ESP8266_v1_reaches_uplink:
  assumes "ended (restore_ESP8266_v1 env v) = None"
    and "ended (join_loop_ESP8266 env (beginOTAA_join env) (beginOTAA_restore env)
           (world (restore_ESP8266_v1 env v))) = None"
  shows "setup_ESP8266_v1 cfg env v =
     uplink_ESP8266 (RADIOLIB_ERR_RX_TIMEOUT cfg) cfg env
       (world (join_loop_ESP8266 env (beginOTAA_join env) (beginOTAA_restore env)
         (world (restore_ESP8266_v1 env v))))"
  using assms by (simp add: setup_ESP8266_v1_def andThen_Next)

text \<open>
  C7, as the claim states it, fails on the ESP32 sketch for an uplink interval of two
  hours: the session is resumed, the uplink gets no downlink and nothing is reported, but
  the timer is programmed with 2905032704 microseconds (about 48 minutes), not with the
  7200 seconds that were configured.
\<close>

theorem uplink_outcomes_counterexample:
  "uplinkIntervalSeconds two_hourly_config = 7200
   \<and> trace (world (setup_ESP32 two_hourly_config resumes_no_downlink first_boot)) =
       [Delay 2000, SetBufferSession [], BeginOTAA False 0, SendReceive [1, 1, 2] (- 1116),
        GotoSleep 7200, TimerWakeup 2905032704, DeepSleepStart]
   \<and> reports (trace (world (setup_ESP32 two_hourly_config resumes_no_downlink first_boot))) = []
   \<and> (2905032704 :: nat) < 7200 * 10 ^ 6"
  by (simp add: setup_ESP32_def restore_defs uplink_ESP32_eq resumes_no_downlink_def
      two_hourly_config_def first_boot_def power_on_ESP32_def RADIOLIB_ERR_NONE_def
      microseconds_def highByte_def lowByte_def)

text \<open>
  C7, amended. The uplink of the ESP32 sketch and of the first ESP8266 sketch: the status
  the sketch compares with for "no downlink" (\<open>RADIOLIB_LORAWAN_NO_DOWNLINK\<close> on ESP32,
  \<open>RADIOLIB_ERR_RX_TIMEOUT\<close> in the first ESP8266 sketch) is not reported, like
  \<open>RADIOLIB_ERR_NONE\<close>; every other status is reported by a \<open>debug\<close> call that does not
  halt; and in all cases the session of the node is copied to retained memory and
  \<open>gotoSleep\<close> is called with the configured uplink interval. The wake-up delay that is
  programmed is \<open>(interval * 10^6) mod 2^32\<close> microseconds, which is the full configured
  interval exactly when the interval is at most 4294 seconds. A run of \<open>setup\<close> that gets
  past the join loop continues with this uplink.
\<close>

theorem uplink_outcomes:
  "reports (trace (world (uplink_ESP32 cfg env w))) =
     reports (trace w)
     @ (if sendReceive env = RADIOLIB_LORAWAN_NO_DOWNLINK cfg \<or> sendReceive env = RADIOLIB_ERR_NONE
        then [] else [(Error_in_sendReceive, sint (sendReceive env))])
   \<and> LWsession (world (uplink_ESP32 cfg env w)) = getBufferSession env
   \<and> sleeps (trace (world (uplink_ESP32 cfg env w))) =
       sleeps (trace w) @ [uplinkIntervalSeconds cfg]
   \<and> TimerWakeup (microseconds (uplinkIntervalSeconds cfg))
       \<in> set (trace (world (uplink_ESP32 cfg env w)))
   \<and> unat (microseconds (uplinkIntervalSeconds cfg)) =
       (unat (uplinkIntervalSeconds cfg) * 10 ^ 6) mod 2 ^ 32
   \<and> (unat (microseconds (uplinkIntervalSeconds cfg)) = unat (uplinkIntervalSeconds cfg) * 10 ^ 6
       \<longleftrightarrow> unat (uplinkIntervalSeconds cfg) \<le> 4294)
   \<and> ended (uplink_ESP32 cfg env w) = Some (if sleep_returns env then Restarted else Asleep)
   \<and> reports (trace (world (uplink_ESP8266 (RADIOLIB_ERR_RX_TIMEOUT cfg) cfg env v))) =
     reports (trace v)
     @ (if sendReceive env = RADIOLIB_ERR_RX_TIMEOUT cfg \<or> sendReceive env = RADIOLIB_ERR_NONE
        then [] else [(Error_in_sendReceive, sint (sendReceive env))])
   \<and> LWsession (world (uplink_ESP8266 (RADIOLIB_ERR_RX_TIMEOUT cfg) cfg env v)) =
       getBufferSession env
   \<and> rtc_LWsession (world (uplink_ESP8266 (RADIOLIB_ERR_RX_TIMEOUT cfg) cfg env v)) =
       getBufferSession env
   \<and> sleeps (trace (world (uplink_ESP8266 (RADIOLIB_ERR_RX_TIMEOUT cfg) cfg env v))) =
       sleeps (trace v) @ [uplinkIntervalSeconds cfg]
   \<and> DeepSleep (microseconds (uplinkIntervalSeconds cfg))
       \<in> set (trace (world (uplink_ESP8266 (RADIOLIB_ERR_RX_TIMEOUT cfg) cfg env v)))
   \<and> ended (uplink_ESP8266 (RADIOLIB_ERR_RX_TIMEOUT cfg) cfg env v) =
       Some (if sleep_returns env then Restarted else Asleep)
   \<and> (ended (restore_ESP32 env w) = None \<longrightarrow>
      ended (join_loop_ESP32 env (beginOTAA_join env) (beginOTAA_restore env)
        (world (restore_ESP32 env w))) = None \<longrightarrow>
      setup_ESP32 cfg env w =
        uplink_ESP32 cfg env (world (join_loop_ESP32 env (beginOTAA_join env)
          (beginOTAA_restore env) (world (restore_ESP32 env w)))))
   \<and> (ended (restore_ESP8266_v1 env v) = None \<longrightarrow>
      ended (join_loop_ESP8266 env (beginOTAA_join env) (beginOTAA_restore env)
        (world (restore_ESP8266_v1 env v))) = None \<longrightarrow>
      setup_ESP8266_v1 cfg env v =
        uplink_ESP8266 (RADIOLIB_ERR_RX_TIMEOUT cfg) cfg env
          (world (join_loop_ESP8266 env (beginOTAA_join env) (beginOTAA_restore env)
            (world (restore_ESP8266_v1 env v)))))"
proof -
  have a: "reports (trace (world (uplink_ESP32 cfg env w))) =
     reports (trace w)
     @ (if sendReceive env = RADIOLIB_LORAWAN_NO_DOWNLINK cfg \<or> sendReceive env = RADIOLIB_ERR_NONE
        then [] else [(Error_in_sendReceive, sint (sendReceive env))])"
    by (simp add: uplink_ESP32_eq reports_append)
  have b: "LWsession (world (uplink_ESP32 cfg env w)) = getBufferSession env
   \<and> sleeps (trace (world (uplink_ESP32 cfg env w))) =
       sleeps (trace w) @ [uplinkIntervalSeconds cfg]
   \<and> TimerWakeup (microseconds (uplinkIntervalSeconds cfg))
       \<in> set (trace (world (uplink_ESP32 cfg env w)))
   \<and> unat (microseconds (uplinkIntervalSeconds cfg)) =
       (unat (uplinkIntervalSeconds cfg) * 10 ^ 6) mod 2 ^ 32
   \<and> (unat (microseconds (uplinkIntervalSeconds cfg)) = unat (uplinkIntervalSeconds cfg) * 10 ^ 6
       \<longleftrightarrow> unat (uplinkIntervalSeconds cfg) \<le> 4294)
   \<and> ended (uplink_ESP32 cfg env w) = Some (if sleep_returns env then Restarted else Asleep)"
    using microseconds_exact_iff [of "uplinkIntervalSeconds cfg"]
    by (simp add: uplink_ESP32_eq sleeps_append microseconds_unat)
  have c: "reports (trace (world (uplink_ESP8266 (RADIOLIB_ERR_RX_TIMEOUT cfg) cfg env v))) =
     reports (trace v)
     @ (if sendReceive env = RADIOLIB_ERR_RX_TIMEOUT cfg \<or> sendReceive env = RADIOLIB_ERR_NONE
        then [] else [(Error_in_sendReceive, sint (sendReceive env))])"
    by (simp add: uplink_ESP8266_eq reports_append)
  have d: "LWsession (world (uplink_ESP8266 (RADIOLIB_ERR_RX_TIMEOUT cfg) cfg env v)) =
       getBufferSession env
   \<and> rtc_LWsession (world (uplink_ESP8266 (RADIOLIB_ERR_RX_TIMEOUT cfg) cfg env v)) =
       getBufferSession env
   \<and> sleeps (trace (world (uplink_ESP8266 (RADIOLIB_ERR_RX_TIMEOUT cfg) cfg env v))) =
       sleeps (trace v) @ [uplinkIntervalSeconds cfg]
   \<and> DeepSleep (microseconds (uplinkIntervalSeconds cfg))
       \<in> set (trace (world (uplink_ESP8266 (RADIOLIB_ERR_RX_TIMEOUT cfg) cfg env v)))
   \<and> ended (uplink_ESP8266 (RADIOLIB_ERR_RX_TIMEOUT cfg) cfg env v) =
       Some (if sleep_returns env then Restarted else Asleep)"
    by (simp add: uplink_ESP8266_eq sleeps_append)
  have e: "ended (restore_ESP32 env w) = None \<longrightarrow>
      ended (join_loop_ESP32 env (beginOTAA_join env) (beginOTAA_restore env)
        (world (restore_ESP32 env w))) = None \<longrightarrow>
      setup_ESP32 cfg env w =
        uplink_ESP32 cfg env (world (join_loop_ESP32 env (beginOTAA_join env)
          (beginOTAA_restore env) (world (restore_ESP32 env w))))"
    using setup_ESP32_reaches_uplink [of env w cfg] by blast
  have f: "ended (restore_ESP8266_v1 env v) = None \<longrightarrow>
      ended (join_loop_ESP8266 env (beginOTAA_join env) (beginOTAA_restore env)
        (world (restore_ESP8266_v1 env v))) = None \<longrightarrow>
      setup_ESP8266_v1 cfg env v =
        uplink_ESP8266 (RADIOLIB_ERR_RX_TIMEOUT cfg) cfg env
          (world (join_loop_ESP8266 env (beginOTAA_join env) (beginOTAA_restore env)
            (world (restore_ESP8266_v1 env v))))"
    using setup_ESP8266_v1_reaches_uplink [of env v cfg] by blast
  from a b c d e f show ?thesis by (intro conjI) (elim conjE, assumption)+
qed

theorem uplink_outcomes_witness:
  "reports (trace (world (setup_ESP32 example_config resumes_no_downlink
      first_boot))) = []
   \<and> sleeps (trace (world (setup_ESP32 example_config resumes_no_downlink
      first_boot))) = [300]
   \<and> LWsession (world (setup_ESP32 example_config resumes_no_downlink
      first_boot)) = [1, 2, 3]"
proof -
  let ?w = first_boot
  have r: "ended (restore_ESP32 resumes_no_downlink ?w) = None"
    by (simp add: restore_ESP32_ended resumes_no_downlink_def RADIOLIB_ERR_NONE_def)
  have j: "join_loop_ESP32 resumes_no_downlink (beginOTAA_join resumes_no_downlink)
      (beginOTAA_restore resumes_no_downlink) (world (restore_ESP32 resumes_no_downlink ?w))
      = Next (world (restore_ESP32 resumes_no_downlink ?w))"
    by (simp add: resumes_no_downlink_def RADIOLIB_ERR_NONE_def)
  have t: "reports (trace (world (restore_ESP32 resumes_no_downlink ?w))) = []"
    "sleeps (trace (world (restore_ESP32 resumes_no_downlink ?w))) = []"
    by (simp_all add: restore_ESP32_reports restore_ESP32_sleeps resumes_no_downlink_def
        RADIOLIB_ERR_NONE_def power_on_ESP32_def first_boot_def)
  have c: "sendReceive resumes_no_downlink = RADIOLIB_LORAWAN_NO_DOWNLINK example_config"
    "uplinkIntervalSeconds example_config = 300" "getBufferSession resumes_no_downlink = [1, 2, 3]"
    by (simp_all add: resumes_no_downlink_def example_config_def)
  show ?thesis
    using uplink_outcomes [of example_config resumes_no_downlink
        "world (restore_ESP32 resumes_no_downlink ?w)"] 
      uplink_outcomes [of example_config resumes_no_downlink ?w] r j t c
    by simp
qed


section \<open>Reports of the restore steps\<close>

lemma setup_ESP32_bootCount: "bootCount (world (setup_ESP32 cfg env w)) = bootCount w + 1"
  by (simp add: setup_ESP32_def world_andThen uplink_ESP32_eq join_loop_ESP32_fields
      restore_ESP32_fields)

lemma setup_ESP8266_v1_bootCount:
  "bootCount (world (setup_ESP8266_v1 cfg env v)) = rtc_bootCount v + 1"
  by (simp add: setup_ESP8266_v1_def world_andThen uplink_ESP8266_eq join_loop_ESP8266_fields
      restore_ESP8266_v1_fields)

lemma setup_ESP8266_bootCount:
  "bootCount (world (setup_ESP8266 cfg env v)) =
     (if getResetReason env \<noteq> ''Deep-Sleep Wake'' then 1 else rtc_bootCount v + 1)"
  by (simp add: setup_ESP8266_def world_andThen uplink_ESP8266_eq join_loop_ESP8266_fields
      restore_ESP8266_fields)

lemma setup_ESP32_reports:
  assumes "radio_begin env = RADIOLIB_ERR_NONE"
  shows "filter (\<lambda>r. fst r \<noteq> Error_in_sendReceive)
           (reports (trace (world (setup_ESP32 cfg env w)))) =
         filter (\<lambda>r. fst r \<noteq> Error_in_sendReceive) (reports (trace w))
     @ (if store w ''nonces'' \<noteq> None \<and> setBufferNonces env \<noteq> RADIOLIB_ERR_NONE
        then [(Restoring_nonces_buffer_failed, sint (setBufferNonces env))] else [])
     @ (if setBufferSession env \<noteq> RADIOLIB_ERR_NONE \<and> 2 < bootCount w + 1
        then [(Restoring_session_buffer_failed, sint (setBufferSession env))] else [])
     @ (if beginOTAA_restore env \<noteq> RADIOLIB_ERR_NONE \<and> 2 < bootCount w + 1
        then [(Restore_session_failed, sint (beginOTAA_restore env))] else [])"
  using assms
  by (simp add: setup_ESP32_def world_andThen uplink_ESP32_eq join_loop_ESP32_reports
      restore_ESP32_reports reports_append)

lemma setup_ESP8266_v1_reports:
  assumes "radio_begin env = RADIOLIB_ERR_NONE"
  shows "filter (\<lambda>r. fst r \<noteq> Error_in_sendReceive)
           (reports (trace (world (setup_ESP8266_v1 cfg env v)))) =
         filter (\<lambda>r. fst r \<noteq> Error_in_sendReceive) (reports (trace v))
     @ (if setBufferNonces env \<noteq> RADIOLIB_ERR_NONE \<and> 2 < rtc_bootCount v + 1
        then [(Restoring_nonces_buffer_failed, sint (setBufferNonces env))] else [])
     @ (if setBufferSession env \<noteq> RADIOLIB_ERR_NONE \<and> 2 < rtc_bootCount v + 1
        then [(Restoring_session_buffer_failed, sint (setBufferSession env))] else [])
     @ (if beginOTAA_restore env \<noteq> RADIOLIB_ERR_NONE \<and> 2 < rtc_bootCount v + 1
        then [(Restore_session_failed, sint (beginOTAA_restore env))] else [])"
  using assms
  by (simp add: setup_ESP8266_v1_def world_andThen uplink_ESP8266_eq join_loop_ESP8266_reports
      restore_ESP8266_v1_reports reports_append)

text \<open>
  C6, as the claim states it, fails on the ESP32 sketch: on the first boot after a power
  loss (\<open>bootCount\<close> is 2 when the restore steps run) with nonces in the store, a failure
  of \<open>setBufferNonces\<close> is reported.
\<close>

theorem restore_failure_suppression_counterexample:
  "bootCount (world (setup_ESP32 example_config join_fails
      first_boot_with_nonces)) = 2
   \<and> setBufferNonces join_fails \<noteq> RADIOLIB_ERR_NONE
   \<and> reports (trace (world (setup_ESP32 example_config join_fails
      first_boot_with_nonces))) = [(Restoring_nonces_buffer_failed, - 1)]"
  by (simp add: setup_ESP32_def restore_defs loop_ESP32_simps join_fails_def
      power_on_ESP32_def first_boot_with_nonces_def
      RADIOLIB_ERR_NONE_def word_sless_alt)

text \<open>
  C6, amended. When the radio has started, the failures a run of \<open>setup\<close> reports, apart
  from that of the uplink, are these, none of them fatal. Session restore and session
  resumption: reported when they fail and \<open>bootCount\<close> (already counted for this boot) is
  greater than 2, suppressed when it is at most 2. Nonces restore: the same on ESP8266;
  on ESP32 it is attempted only if the key \<open>nonces\<close> exists, and its failure is then
  reported whatever \<open>bootCount\<close> is.
\<close>

theorem restore_failure_suppression:
  assumes "radio_begin env = RADIOLIB_ERR_NONE"
  shows "filter (\<lambda>r. fst r \<noteq> Error_in_sendReceive)
           (reports (trace (world (setup_ESP32 cfg env (w\<lparr>trace := []\<rparr>))))) =
       (if store w ''nonces'' \<noteq> None \<and> setBufferNonces env \<noteq> RADIOLIB_ERR_NONE
        then [(Restoring_nonces_buffer_failed, sint (setBufferNonces env))] else [])
     @ (if setBufferSession env \<noteq> RADIOLIB_ERR_NONE
           \<and> 2 < bootCount (world (setup_ESP32 cfg env (w\<lparr>trace := []\<rparr>)))
        then [(Restoring_session_buffer_failed, sint (setBufferSession env))] else [])
     @ (if beginOTAA_restore env \<noteq> RADIOLIB_ERR_NONE
           \<and> 2 < bootCount (world (setup_ESP32 cfg env (w\<lparr>trace := []\<rparr>)))
        then [(Restore_session_failed, sint (beginOTAA_restore env))] else [])
   \<and> ended (restore_ESP32 env w) = None
   \<and> filter (\<lambda>r. fst r \<noteq> Error_in_sendReceive)
           (reports (trace (world (setup_ESP8266_v1 cfg env (v\<lparr>trace := []\<rparr>))))) =
       (if setBufferNonces env \<noteq> RADIOLIB_ERR_NONE
           \<and> 2 < bootCount (world (setup_ESP8266_v1 cfg env (v\<lparr>trace := []\<rparr>)))
        then [(Restoring_nonces_buffer_failed, sint (setBufferNonces env))] else [])
     @ (if setBufferSession env \<noteq> RADIOLIB_ERR_NONE
           \<and> 2 < bootCount (world (setup_ESP8266_v1 cfg env (v\<lparr>trace := []\<rparr>)))
        then [(Restoring_session_buffer_failed, sint (setBufferSession env))] else [])
     @ (if beginOTAA_restore env \<noteq> RADIOLIB_ERR_NONE
           \<and> 2 < bootCount (world (setup_ESP8266_v1 cfg env (v\<lparr>trace := []\<rparr>)))
        then [(Restore_session_failed, sint (beginOTAA_restore env))] else [])
   \<and> ended (restore_ESP8266_v1 env v) = None"
proof -
  have a: "ended (restore_ESP32 env w) = None" "ended (restore_ESP8266_v1 env v) = None"
    using assms by (simp_all add: restore_ESP32_ended restore_ESP8266_v1_ended)
  show ?thesis
    using a setup_ESP32_reports [OF assms, of cfg "w\<lparr>trace := []\<rparr>"]
      setup_ESP8266_v1_reports [OF assms, of cfg "v\<lparr>trace := []\<rparr>"]
    by (simp add: setup_ESP32_bootCount setup_ESP8266_v1_bootCount)
qed

theorem restore_failure_suppression_witness:
  "filter (\<lambda>r. fst r \<noteq> Error_in_sendReceive)
     (reports (trace (world (setup_ESP32 example_config join_fails
        second_boot)))) =
     [(Restoring_session_buffer_failed, - 1), (Restore_session_failed, - 1)]"
  using restore_failure_suppression [of join_fails example_config
      second_boot]
  by (simp add: join_fails_def RADIOLIB_ERR_NONE_def power_on_ESP32_def second_boot_def
      setup_ESP32_bootCount)


section \<open>The failure streak\<close>

lemma uint16_succ_eq_0: "(x :: uint16_t) + 1 = 0 \<longleftrightarrow> x = 0xFFFF"
proof
  assume "x + 1 = 0"
  hence "x = - 1" by (simp add: eq_neg_iff_add_eq_0)
  thus "x = 0xFFFF" by simp
next
  assume "x = 0xFFFF"
  thus "x + 1 = 0" by simp
qed

lemma join_loop_ESP32_streak_0:
  "bootCountSinceUnsuccessfulJoin (world (join_loop_ESP32 env answers state w)) = 0 \<Longrightarrow>
   bootCountSinceUnsuccessfulJoin w = 0 \<or> bootCountSinceUnsuccessfulJoin w = 0xFFFF
   \<or> (\<exists>b. PutNonces b \<in> set (trace (world (join_loop_ESP32 env answers state w))))"
proof (cases "state = RADIOLIB_ERR_NONE")
  case True
  assume "bootCountSinceUnsuccessfulJoin (world (join_loop_ESP32 env answers state w)) = 0"
  thus ?thesis using True by (cases answers) (auto split: if_splits)
next
  case running: False
  assume z: "bootCountSinceUnsuccessfulJoin (world (join_loop_ESP32 env answers state w)) = 0"
  show ?thesis
  proof (cases answers)
    case Nil
    thus ?thesis using z by (simp split: if_splits)
  next
    case (Cons a rest)
    obtain st persist where a: "a = (st, persist)" by (cases a)
    show ?thesis
    proof (cases "st <s RADIOLIB_ERR_NONE")
      case True
      hence "bootCountSinceUnsuccessfulJoin w + 1 = 0"
        using z running by (simp add: Cons a loop_ESP32_simps)
      thus ?thesis by (simp add: uint16_succ_eq_0)
    next
      case False
      let ?w1 = "joined_ESP32 persist (emit (BeginOTAA True st) w)"
      have "PutNonces persist \<in> set (trace ?w1)"
        by (simp add: loop_ESP32_simps)
      moreover have "set (trace ?w1) \<subseteq> set (trace (world (join_loop_ESP32 env rest st ?w1)))"
        by (rule set_mono_prefix [OF join_loop_ESP32_extends])
      ultimately have "PutNonces persist \<in> set (trace (world (join_loop_ESP32 env rest st ?w1)))"
        by (rule subsetD [rotated])
      hence "PutNonces persist \<in> set (trace (world (join_loop_ESP32 env answers state w)))"
        by (simp only: Cons a join_loop_ESP32_success [OF running False])
      thus ?thesis by blast
    qed
  qed
qed

lemma setup_ESP32_streak_0:
  assumes "bootCountSinceUnsuccessfulJoin (world (setup_ESP32 cfg env w)) = 0"
  shows "bootCountSinceUnsuccessfulJoin w = 0 \<or> bootCountSinceUnsuccessfulJoin w = 0xFFFF
   \<or> (\<exists>b. PutNonces b \<in> set (trace (world (setup_ESP32 cfg env w))))"
proof -
  let ?r = "world (restore_ESP32 env w)"
  let ?j = "join_loop_ESP32 env (beginOTAA_join env) (beginOTAA_restore env) ?r"
  show ?thesis
  proof (cases "radio_begin env = RADIOLIB_ERR_NONE")
    case False
    thus ?thesis
      using assms
      by (simp add: setup_ESP32_def world_andThen restore_ESP32_ended restore_ESP32_fields)
  next
    case True
    have z: "bootCountSinceUnsuccessfulJoin (world ?j) = 0"
      using assms True
      by (simp add: setup_ESP32_def world_andThen restore_ESP32_ended uplink_ESP32_eq
          split: if_splits)
    have "set (trace (world ?j)) \<subseteq> set (trace (world (setup_ESP32 cfg env w)))"
      using True
      by (auto simp: setup_ESP32_def world_andThen restore_ESP32_ended uplink_ESP32_eq)
    thus ?thesis
      using join_loop_ESP32_streak_0 [OF z] by (auto simp: restore_ESP32_fields)
  qed
qed

text \<open>
  The streak after a run is the streak before it with the updates of the fresh joins of
  the run applied in order.
\<close>

lemma restore_ESP32_streak_after:
  "streak_after (trace (world (restore_ESP32 env w))) s = streak_after (trace w) s"
  by (simp add: restore_defs streak_after_append split: option.splits)

lemma join_loop_ESP32_streak_after:
  "bootCountSinceUnsuccessfulJoin w = streak_after (trace w) s0 \<Longrightarrow>
   bootCountSinceUnsuccessfulJoin (world (join_loop_ESP32 env answers state w)) =
     streak_after (trace (world (join_loop_ESP32 env answers state w))) s0"
  by (induction env answers state w rule: join_loop_ESP32.induct)
     (simp_all add: loop_ESP32_simps streak_after_append)

lemma setup_ESP32_streak_after:
  assumes "trace w = []"
  shows "bootCountSinceUnsuccessfulJoin (world (setup_ESP32 cfg env w)) =
     streak_after (trace (world (setup_ESP32 cfg env w))) (bootCountSinceUnsuccessfulJoin w)"
proof -
  let ?r = "world (restore_ESP32 env w)"
  let ?j = "world (join_loop_ESP32 env (beginOTAA_join env) (beginOTAA_restore env) ?r)"
  have r: "bootCountSinceUnsuccessfulJoin ?r =
      streak_after (trace ?r) (bootCountSinceUnsuccessfulJoin w)"
    using assms by (simp add: restore_ESP32_fields restore_ESP32_streak_after)
  have j: "bootCountSinceUnsuccessfulJoin ?j =
      streak_after (trace ?j) (bootCountSinceUnsuccessfulJoin w)"
    using r by (rule join_loop_ESP32_streak_after)
  show ?thesis
    using r j
    by (simp add: setup_ESP32_def world_andThen uplink_ESP32_eq streak_after_append)
qed

lemma restore_RP2040_streak_after:
  "streak_after (trace (world (restore_RP2040 env r))) s = streak_after (trace r) s"
  by (simp add: restore_defs streak_after_append split: option.splits)

lemma join_loop_RP2040_failure:
  assumes "state \<noteq> RADIOLIB_ERR_NONE" and "st <s RADIOLIB_ERR_NONE"
  shows "join_loop_RP2040 env ((st, persist) # answers) state r =
     andThen (gotoSleep_RP2040 env (sleepForSeconds (bootCountSinceUnsuccessfulJoin r))
                ((emit (BeginOTAA True st) r)
                   \<lparr>bootCountSinceUnsuccessfulJoin := bootCountSinceUnsuccessfulJoin r + 1\<rparr>))
             (join_loop_RP2040 env answers st)"
  using assms by (simp add: loop_RP2040_simps)

lemma join_loop_RP2040_streak_after:
  "bootCountSinceUnsuccessfulJoin r = streak_after (trace r) s0 \<Longrightarrow>
   bootCountSinceUnsuccessfulJoin (world (join_loop_RP2040 env answers state r)) =
     streak_after (trace (world (join_loop_RP2040 env answers state r))) s0"
proof (induction answers arbitrary: state r)
  case Nil
  thus ?case by simp
next
  case (Cons a answers)
  obtain st persist where a: "a = (st, persist)" by (cases a)
  let ?r1 = "joined_ESP32 persist (emit (BeginOTAA True st) r)"
  let ?r2 = "r\<lparr>bootCountSinceUnsuccessfulJoin := bootCountSinceUnsuccessfulJoin r + 1,
     trace := trace r @ [BeginOTAA True st,
       GotoSleep (sleepForSeconds (bootCountSinceUnsuccessfulJoin r)), Delay 100,
       PicoSleep (sleepForSeconds (bootCountSinceUnsuccessfulJoin r))],
     scratch1 := ucast (bootCount r)\<rparr>"
  consider (idle) "state = RADIOLIB_ERR_NONE"
    | (joined) "state \<noteq> RADIOLIB_ERR_NONE" "\<not> st <s RADIOLIB_ERR_NONE"
    | (asleep) "state \<noteq> RADIOLIB_ERR_NONE" "st <s RADIOLIB_ERR_NONE" "\<not> sleep_returns env"
    | (awake) "state \<noteq> RADIOLIB_ERR_NONE" "st <s RADIOLIB_ERR_NONE" "sleep_returns env"
    by blast
  thus ?case
  proof cases
    case idle
    thus ?thesis using Cons.prems by (simp add: a)
  next
    case joined
    have e: "join_loop_RP2040 env (a # answers) state r = join_loop_RP2040 env answers st ?r1"
      using joined by (simp add: a Let_def)
    have "bootCountSinceUnsuccessfulJoin ?r1 = streak_after (trace ?r1) s0"
      using joined by (simp add: joined_ESP32_eq emit_def streak_after_append)
    hence "bootCountSinceUnsuccessfulJoin (world (join_loop_RP2040 env answers st ?r1)) =
       streak_after (trace (world (join_loop_RP2040 env answers st ?r1))) s0"
      by (rule Cons.IH)
    thus ?thesis by (simp only: e)
  next
    case asleep
    thus ?thesis using Cons.prems by (simp add: a loop_RP2040_simps streak_after_append)
  next
    case awake
    have e: "join_loop_RP2040 env (a # answers) state r = join_loop_RP2040 env answers st ?r2"
      using awake by (simp add: a loop_RP2040_simps)
    have "bootCountSinceUnsuccessfulJoin ?r2 = streak_after (trace ?r2) s0"
      using awake Cons.prems by (simp add: streak_after_append)
    hence "bootCountSinceUnsuccessfulJoin (world (join_loop_RP2040 env answers st ?r2)) =
       streak_after (trace (world (join_loop_RP2040 env answers st ?r2))) s0"
      by (rule Cons.IH)
    thus ?thesis by (simp only: e)
  qed
qed

lemma setup_RP2040_streak_after:
  assumes "trace r = []"
  shows "bootCountSinceUnsuccessfulJoin (world (setup_RP2040 cfg env r)) =
     streak_after (trace (world (setup_RP2040 cfg env r)))
       (if ucast (scratch1 r) = (0 :: uint16_t) then 0 else bootCountSinceUnsuccessfulJoin r)"
proof -
  let ?s = "if ucast (scratch1 r) = (0 :: uint16_t) then 0 else bootCountSinceUnsuccessfulJoin r"
  let ?r = "world (restore_RP2040 env r)"
  let ?j = "world (join_loop_RP2040 env (beginOTAA_join env) (beginOTAA_restore env) ?r)"
  have r: "bootCountSinceUnsuccessfulJoin ?r = streak_after (trace ?r) ?s"
    using assms by (simp add: restore_RP2040_fields restore_RP2040_streak_after)
  have j: "bootCountSinceUnsuccessfulJoin ?j = streak_after (trace ?j) ?s"
    using r by (rule join_loop_RP2040_streak_after)
  show ?thesis
    using r j
    by (simp add: setup_RP2040_def world_andThen uplink_RP2040_eq streak_after_append)
qed

text \<open>
  C4, as the claim states it, fails on the ESP32 sketch: the streak is a \<open>uint16_t\<close>, and
  at 65535 the increment of a failed join (status -1 here, no join succeeds and nothing
  is written to the store) sets it to 0.
\<close>

theorem failure_streak_reset_counterexample:
  "bootCountSinceUnsuccessfulJoin after_65535_failed_boots = 0xFFFF
   \<and> trace (world (setup_ESP32 example_config join_fails after_65535_failed_boots)) =
       [Delay 2000, SetBufferSession [], BeginOTAA False (- 1), BeginOTAA True (- 1),
        GotoSleep 180, TimerWakeup 180000000, DeepSleepStart]
   \<and> bootCountSinceUnsuccessfulJoin
       (world (setup_ESP32 example_config join_fails after_65535_failed_boots)) = 0"
  by (simp add: setup_ESP32_def restore_defs loop_ESP32_simps join_fails_def
      after_65535_failed_boots_def RADIOLIB_ERR_NONE_def word_sless_alt sleepForSeconds_def
      microseconds_def)

text \<open>
  C4, amended. In the ESP32 and RP2040 sketches a join that takes the success branch
  sets the failure streak to 0, whatever it was. A failed join sets it to the prior value
  plus one in 16-bit arithmetic, which is 0 exactly when the prior value is 65535; on
  RP2040 the loop goes on with the next join when the sleep comes back. The restore steps,
  the uplink and \<open>gotoSleep\<close> leave the streak as it is, so after a run of \<open>setup\<close> it is
  the streak at boot with these two updates applied for every fresh join of the run, in
  order; on ESP32 a run that ends with a streak of 0 started with 0 or 65535 or wrote the
  nonces after a join. A boot that is not a wake-up gives it the value 0: the initialiser
  on ESP32, and on RP2040 the start of \<open>setup\<close> when the scratch register reads 0.
\<close>

theorem failure_streak_reset:
  "(state \<noteq> RADIOLIB_ERR_NONE \<longrightarrow> \<not> st <s RADIOLIB_ERR_NONE \<longrightarrow>
      join_loop_ESP32 env ((st, persist) # answers) state w =
        join_loop_ESP32 env answers st (joined_ESP32 persist (emit (BeginOTAA True st) w))
      \<and> bootCountSinceUnsuccessfulJoin (joined_ESP32 persist (emit (BeginOTAA True st) w)) = 0)
   \<and> (state \<noteq> RADIOLIB_ERR_NONE \<longrightarrow> st <s RADIOLIB_ERR_NONE \<longrightarrow>
      bootCountSinceUnsuccessfulJoin
        (world (join_loop_ESP32 env ((st, persist) # answers) state w)) =
        bootCountSinceUnsuccessfulJoin w + 1)
   \<and> (bootCountSinceUnsuccessfulJoin w + 1 = 0 \<longleftrightarrow> bootCountSinceUnsuccessfulJoin w = 0xFFFF)
   \<and> bootCountSinceUnsuccessfulJoin (world (restore_ESP32 env w)) =
       bootCountSinceUnsuccessfulJoin w
   \<and> bootCountSinceUnsuccessfulJoin (world (uplink_ESP32 cfg env w)) =
       bootCountSinceUnsuccessfulJoin w
   \<and> bootCountSinceUnsuccessfulJoin (world (gotoSleep_ESP32 env seconds w)) =
       bootCountSinceUnsuccessfulJoin w
   \<and> (bootCountSinceUnsuccessfulJoin (world (setup_ESP32 cfg env (w\<lparr>trace := []\<rparr>))) = 0 \<longrightarrow>
      bootCountSinceUnsuccessfulJoin w = 0 \<or> bootCountSinceUnsuccessfulJoin w = 0xFFFF
      \<or> (\<exists>b. PutNonces b \<in> set (trace (world (setup_ESP32 cfg env (w\<lparr>trace := []\<rparr>))))))
   \<and> bootCountSinceUnsuccessfulJoin (power_on_ESP32 session flash) = 0
   \<and> bootCountSinceUnsuccessfulJoin (world (restore_RP2040 env r)) =
       (if ucast (scratch1 r) = (0 :: uint16_t) then 0 else bootCountSinceUnsuccessfulJoin r)
   \<and> bootCountSinceUnsuccessfulJoin (world (setup_ESP32 cfg env (w\<lparr>trace := []\<rparr>))) =
       streak_after (trace (world (setup_ESP32 cfg env (w\<lparr>trace := []\<rparr>))))
         (bootCountSinceUnsuccessfulJoin w)
   \<and> (state \<noteq> RADIOLIB_ERR_NONE \<longrightarrow> \<not> st <s RADIOLIB_ERR_NONE \<longrightarrow>
      join_loop_RP2040 env ((st, persist) # answers) state r =
        join_loop_RP2040 env answers st (joined_ESP32 persist (emit (BeginOTAA True st) r))
      \<and> bootCountSinceUnsuccessfulJoin (joined_ESP32 persist (emit (BeginOTAA True st) r)) = 0)
   \<and> (state \<noteq> RADIOLIB_ERR_NONE \<longrightarrow> st <s RADIOLIB_ERR_NONE \<longrightarrow>
      join_loop_RP2040 env ((st, persist) # answers) state r =
        andThen (gotoSleep_RP2040 env (sleepForSeconds (bootCountSinceUnsuccessfulJoin r))
                   ((emit (BeginOTAA True st) r)
                      \<lparr>bootCountSinceUnsuccessfulJoin := bootCountSinceUnsuccessfulJoin r + 1\<rparr>))
                (join_loop_RP2040 env answers st))
   \<and> bootCountSinceUnsuccessfulJoin (world (gotoSleep_RP2040 env seconds r)) =
       bootCountSinceUnsuccessfulJoin r
   \<and> bootCountSinceUnsuccessfulJoin (world (uplink_RP2040 cfg env r)) =
       bootCountSinceUnsuccessfulJoin r
   \<and> bootCountSinceUnsuccessfulJoin (world (setup_RP2040 cfg env (r\<lparr>trace := []\<rparr>))) =
       streak_after (trace (world (setup_RP2040 cfg env (r\<lparr>trace := []\<rparr>))))
         (if ucast (scratch1 r) = (0 :: uint16_t) then 0 else bootCountSinceUnsuccessfulJoin r)"
proof -
  have a: "state \<noteq> RADIOLIB_ERR_NONE \<longrightarrow> \<not> st <s RADIOLIB_ERR_NONE \<longrightarrow>
      join_loop_ESP32 env ((st, persist) # answers) state w =
        join_loop_ESP32 env answers st (joined_ESP32 persist (emit (BeginOTAA True st) w))
      \<and> bootCountSinceUnsuccessfulJoin (joined_ESP32 persist (emit (BeginOTAA True st) w)) = 0"
    by (simp add: loop_ESP32_simps)
  have b: "state \<noteq> RADIOLIB_ERR_NONE \<longrightarrow> st <s RADIOLIB_ERR_NONE \<longrightarrow>
      bootCountSinceUnsuccessfulJoin
        (world (join_loop_ESP32 env ((st, persist) # answers) state w)) =
        bootCountSinceUnsuccessfulJoin w + 1"
    by (simp add: loop_ESP32_simps)
  have c: "bootCountSinceUnsuccessfulJoin w + 1 = 0 \<longleftrightarrow> bootCountSinceUnsuccessfulJoin w = 0xFFFF"
    by (rule uint16_succ_eq_0)
  have d: "bootCountSinceUnsuccessfulJoin (world (restore_ESP32 env w)) =
       bootCountSinceUnsuccessfulJoin w
   \<and> bootCountSinceUnsuccessfulJoin (world (uplink_ESP32 cfg env w)) =
       bootCountSinceUnsuccessfulJoin w
   \<and> bootCountSinceUnsuccessfulJoin (world (gotoSleep_ESP32 env seconds w)) =
       bootCountSinceUnsuccessfulJoin w"
    by (simp add: restore_ESP32_fields uplink_ESP32_eq gotoSleep_ESP32_eq)
  have e: "bootCountSinceUnsuccessfulJoin (world (setup_ESP32 cfg env (w\<lparr>trace := []\<rparr>))) = 0 \<longrightarrow>
      bootCountSinceUnsuccessfulJoin w = 0 \<or> bootCountSinceUnsuccessfulJoin w = 0xFFFF
      \<or> (\<exists>b. PutNonces b \<in> set (trace (world (setup_ESP32 cfg env (w\<lparr>trace := []\<rparr>)))))"
    using setup_ESP32_streak_0 [of cfg env "w\<lparr>trace := []\<rparr>"] by simp
  have f: "bootCountSinceUnsuccessfulJoin (power_on_ESP32 session flash) = 0
   \<and> bootCountSinceUnsuccessfulJoin (world (restore_RP2040 env r)) =
       (if ucast (scratch1 r) = (0 :: uint16_t) then 0 else bootCountSinceUnsuccessfulJoin r)"
    by (simp add: power_on_ESP32_def restore_RP2040_fields)
  have g: "bootCountSinceUnsuccessfulJoin (world (setup_ESP32 cfg env (w\<lparr>trace := []\<rparr>))) =
       streak_after (trace (world (setup_ESP32 cfg env (w\<lparr>trace := []\<rparr>))))
         (bootCountSinceUnsuccessfulJoin w)"
    using setup_ESP32_streak_after [of "w\<lparr>trace := []\<rparr>" cfg env] by simp
  have h: "state \<noteq> RADIOLIB_ERR_NONE \<longrightarrow> \<not> st <s RADIOLIB_ERR_NONE \<longrightarrow>
      join_loop_RP2040 env ((st, persist) # answers) state r =
        join_loop_RP2040 env answers st (joined_ESP32 persist (emit (BeginOTAA True st) r))
      \<and> bootCountSinceUnsuccessfulJoin (joined_ESP32 persist (emit (BeginOTAA True st) r)) = 0"
    by (simp add: loop_RP2040_simps)
  have i: "state \<noteq> RADIOLIB_ERR_NONE \<longrightarrow> st <s RADIOLIB_ERR_NONE \<longrightarrow>
      join_loop_RP2040 env ((st, persist) # answers) state r =
        andThen (gotoSleep_RP2040 env (sleepForSeconds (bootCountSinceUnsuccessfulJoin r))
                   ((emit (BeginOTAA True st) r)
                      \<lparr>bootCountSinceUnsuccessfulJoin := bootCountSinceUnsuccessfulJoin r + 1\<rparr>))
                (join_loop_RP2040 env answers st)"
    using join_loop_RP2040_failure [of state st env persist answers r] by blast
  have j: "bootCountSinceUnsuccessfulJoin (world (gotoSleep_RP2040 env seconds r)) =
       bootCountSinceUnsuccessfulJoin r
   \<and> bootCountSinceUnsuccessfulJoin (world (uplink_RP2040 cfg env r)) =
       bootCountSinceUnsuccessfulJoin r"
    by (simp add: gotoSleep_RP2040_eq uplink_RP2040_eq)
  have k: "bootCountSinceUnsuccessfulJoin (world (setup_RP2040 cfg env (r\<lparr>trace := []\<rparr>))) =
       streak_after (trace (world (setup_RP2040 cfg env (r\<lparr>trace := []\<rparr>))))
         (if ucast (scratch1 r) = (0 :: uint16_t) then 0 else bootCountSinceUnsuccessfulJoin r)"
    using setup_RP2040_streak_after [of "r\<lparr>trace := []\<rparr>" cfg env] by simp
  from a b c d e f g h i j k show ?thesis by (intro conjI) (elim conjE, assumption)+
qed

theorem failure_streak_reset_witness:
  "bootCountSinceUnsuccessfulJoin
     (world (join_loop_ESP32 join_fails [(- 1, [])] (- 1) first_boot)) = 1
   \<and> bootCountSinceUnsuccessfulJoin
     (joined_ESP32 [7] (emit (BeginOTAA True 0) after_65535_failed_boots)) = 0
   \<and> bootCountSinceUnsuccessfulJoin
     (world (join_loop_RP2040 join_fails [(- 1, [])] (- 1) hardware_reset_RP2040)) = 1"
proof -
  have h: "(- 1 :: int16_t) \<noteq> RADIOLIB_ERR_NONE" "(- 1 :: int16_t) <s RADIOLIB_ERR_NONE"
    "\<not> (0 :: int16_t) <s RADIOLIB_ERR_NONE"
    by (simp_all add: RADIOLIB_ERR_NONE_def word_sless_alt)
  have "join_loop_RP2040 join_fails [(- 1, [])] (- 1) hardware_reset_RP2040 =
     andThen (gotoSleep_RP2040 join_fails
                (sleepForSeconds (bootCountSinceUnsuccessfulJoin hardware_reset_RP2040))
                ((emit (BeginOTAA True (- 1)) hardware_reset_RP2040)
                   \<lparr>bootCountSinceUnsuccessfulJoin :=
                      bootCountSinceUnsuccessfulJoin hardware_reset_RP2040 + 1\<rparr>))
             (join_loop_RP2040 join_fails [] (- 1))"
    using h failure_streak_reset [where state = "- 1" and st = "- 1" and persist = "[]"
        and answers = "[]" and env = join_fails and r = hardware_reset_RP2040]
    by blast
  hence rp: "bootCountSinceUnsuccessfulJoin
     (world (join_loop_RP2040 join_fails [(- 1, [])] (- 1) hardware_reset_RP2040)) = 1"
    by (simp add: gotoSleep_RP2040_eq emit_def join_fails_def hardware_reset_RP2040_def)
  have "bootCountSinceUnsuccessfulJoin
     (world (join_loop_ESP32 join_fails [(- 1, [])] (- 1) first_boot)) =
     bootCountSinceUnsuccessfulJoin first_boot + 1"
    using h failure_streak_reset [where state = "- 1" and st = "- 1" and persist = "[]"
        and answers = "[]" and env = join_fails and w = first_boot]
    by blast
  moreover have "bootCountSinceUnsuccessfulJoin
     (joined_ESP32 [7] (emit (BeginOTAA True 0) after_65535_failed_boots)) = 0"
    using h failure_streak_reset [where state = "- 1" and st = 0 and persist = "[7]"
        and w = after_65535_failed_boots]
    by blast
  ultimately show ?thesis using rp by (simp add: power_on_ESP32_def first_boot_def)
qed


section \<open>The boot counter\<close>

lemma uint16_of_uint32_of_uint16: "(ucast (ucast (x :: uint16_t) :: uint32_t) :: uint16_t) = x"
  by (rule ucast_up_ucast_id) (simp add: is_up)

text \<open>
  On ESP8266 only \<open>gotoSleep\<close> writes the count to the RTC memory: a run that reaches it
  retains the count of the boot, any other run leaves the RTC memory as the start of
  \<open>setup\<close> left it.
\<close>

lemma join_loop_ESP8266_rtc_bootCount_eq:
  "rtc_bootCount (world (join_loop_ESP8266 env answers state v)) =
     (if ended (join_loop_ESP8266 env answers state v) = Some Asleep
         \<or> ended (join_loop_ESP8266 env answers state v) = Some Restarted
      then bootCount v else rtc_bootCount v)"
  by (induction env answers state v rule: join_loop_ESP8266.induct)
     (simp_all add: loop_ESP8266_simps)

lemma setup_ESP8266_v1_rtc_bootCount_eq:
  "rtc_bootCount (world (setup_ESP8266_v1 cfg env v)) =
     (if ended (setup_ESP8266_v1 cfg env v) = Some Asleep
         \<or> ended (setup_ESP8266_v1 cfg env v) = Some Restarted
      then rtc_bootCount v + 1 else rtc_bootCount v)"
proof -
  let ?r = "world (restore_ESP8266_v1 env v)"
  let ?j = "join_loop_ESP8266 env (beginOTAA_join env) (beginOTAA_restore env) ?r"
  show ?thesis
  proof (cases "radio_begin env = RADIOLIB_ERR_NONE")
    case False
    thus ?thesis
      by (simp add: setup_ESP8266_v1_def world_andThen ended_andThen restore_ESP8266_v1_ended
          restore_ESP8266_v1_fields)
  next
    case True
    show ?thesis
    proof (cases "ended ?j")
      case None
      thus ?thesis
        using True by (simp add: setup_ESP8266_v1_def world_andThen ended_andThen
            restore_ESP8266_v1_ended uplink_ESP8266_eq join_loop_ESP8266_fields
            restore_ESP8266_v1_fields)
    next
      case (Some e)
      have "rtc_bootCount (world ?j) =
          (if ended ?j = Some Asleep \<or> ended ?j = Some Restarted
           then bootCount ?r else rtc_bootCount ?r)"
        by (rule join_loop_ESP8266_rtc_bootCount_eq)
      thus ?thesis
        using Some True by (simp add: setup_ESP8266_v1_def world_andThen ended_andThen
            restore_ESP8266_v1_ended restore_ESP8266_v1_fields)
    qed
  qed
qed

lemma restore_ESP8266_rtc_bootCount:
  "rtc_bootCount (world (restore_ESP8266 cfg env v)) =
     (if getResetReason env \<noteq> ''Deep-Sleep Wake'' then 0 else rtc_bootCount v)"
  by (simp add: restore_defs)

lemma setup_ESP8266_rtc_bootCount_eq:
  "rtc_bootCount (world (setup_ESP8266 cfg env v)) =
     (if ended (setup_ESP8266 cfg env v) = Some Asleep
         \<or> ended (setup_ESP8266 cfg env v) = Some Restarted
      then bootCount (world (setup_ESP8266 cfg env v))
      else if getResetReason env \<noteq> ''Deep-Sleep Wake'' then 0 else rtc_bootCount v)"
proof -
  let ?r = "world (restore_ESP8266 cfg env v)"
  let ?j = "join_loop_ESP8266 env (beginOTAA_join env) (beginOTAA_restore env) ?r"
  show ?thesis
  proof (cases "radio_begin env = RADIOLIB_ERR_NONE")
    case False
    thus ?thesis
      by (simp add: setup_ESP8266_def world_andThen ended_andThen restore_ESP8266_ended
          restore_ESP8266_rtc_bootCount)
  next
    case True
    show ?thesis
    proof (cases "ended ?j")
      case None
      thus ?thesis
        using True by (simp add: setup_ESP8266_def world_andThen ended_andThen
            restore_ESP8266_ended uplink_ESP8266_eq join_loop_ESP8266_fields)
    next
      case (Some e)
      have "rtc_bootCount (world ?j) =
          (if ended ?j = Some Asleep \<or> ended ?j = Some Restarted
           then bootCount ?r else rtc_bootCount ?r)"
        by (rule join_loop_ESP8266_rtc_bootCount_eq)
      thus ?thesis
        using Some True by (simp add: setup_ESP8266_def world_andThen ended_andThen
            restore_ESP8266_ended restore_ESP8266_rtc_bootCount join_loop_ESP8266_fields)
    qed
  qed
qed

text \<open>
  The RP2040 sketch has no statement that counts the boot: what \<open>setup\<close> reads from the
  scratch register is what \<open>gotoSleep\<close> writes back, so \<open>bootCount\<close> is 1 in every boot
  after a hardware reset and the tests \<open>bootCount > 2\<close> of this sketch never hold.
\<close>

lemma join_loop_RP2040_scratch1_cases:
  "scratch1 (world (join_loop_RP2040 env answers state r)) = scratch1 r
   \<or> scratch1 (world (join_loop_RP2040 env answers state r)) = ucast (bootCount r)"
proof (induction answers arbitrary: state r)
  case Nil
  show ?case by simp
next
  case (Cons a answers)
  obtain st persist where a: "a = (st, persist)" by (cases a)
  let ?r1 = "joined_ESP32 persist (emit (BeginOTAA True st) r)"
  let ?r2 = "r\<lparr>bootCountSinceUnsuccessfulJoin := bootCountSinceUnsuccessfulJoin r + 1,
     trace := trace r @ [BeginOTAA True st,
       GotoSleep (sleepForSeconds (bootCountSinceUnsuccessfulJoin r)), Delay 100,
       PicoSleep (sleepForSeconds (bootCountSinceUnsuccessfulJoin r))],
     scratch1 := ucast (bootCount r)\<rparr>"
  consider (idle) "state = RADIOLIB_ERR_NONE"
    | (joined) "state \<noteq> RADIOLIB_ERR_NONE" "\<not> st <s RADIOLIB_ERR_NONE"
    | (asleep) "state \<noteq> RADIOLIB_ERR_NONE" "st <s RADIOLIB_ERR_NONE" "\<not> sleep_returns env"
    | (awake) "state \<noteq> RADIOLIB_ERR_NONE" "st <s RADIOLIB_ERR_NONE" "sleep_returns env"
    by blast
  thus ?case
  proof cases
    case idle
    thus ?thesis by (simp add: a)
  next
    case joined
    hence "join_loop_RP2040 env (a # answers) state r = join_loop_RP2040 env answers st ?r1"
      by (simp add: a Let_def)
    thus ?thesis
      using Cons.IH [of st ?r1] by (simp add: joined_ESP32_eq emit_def)
  next
    case asleep
    thus ?thesis by (simp add: a loop_RP2040_simps)
  next
    case awake
    hence "join_loop_RP2040 env (a # answers) state r = join_loop_RP2040 env answers st ?r2"
      by (simp add: a loop_RP2040_simps)
    thus ?thesis
      using Cons.IH [of st ?r2] by auto
  qed
qed

lemma setup_RP2040_scratch1_cases:
  "scratch1 (world (setup_RP2040 cfg env r)) = scratch1 r
   \<or> scratch1 (world (setup_RP2040 cfg env r)) = ucast (bootCount (world (setup_RP2040 cfg env r)))"
  using join_loop_RP2040_scratch1_cases [of env "beginOTAA_join env" "beginOTAA_restore env"
      "world (restore_RP2040 env r)"]
  by (auto simp: setup_RP2040_def world_andThen uplink_RP2040_eq join_loop_RP2040_fields
      restore_RP2040_fields)

lemma setup_RP2040_bootCount_not_counted:
  "bootCount (world (setup_RP2040 cfg env' (world (setup_RP2040 cfg env r)))) =
   bootCount (world (setup_RP2040 cfg env r))"
  using setup_RP2040_scratch1_cases [of cfg env r]
  by (auto simp: setup_RP2040_bootCount uint16_of_uint32_of_uint16)

lemma setup_RP2040_bootCount_after_reset:
  "scratch1 r = 0 \<Longrightarrow>
   bootCount (world (setup_RP2040 cfg env r)) = 1
   \<and> bootCount (world (setup_RP2040 cfg env' (world (setup_RP2040 cfg env r)))) = 1
   \<and> \<not> 2 < bootCount (world (setup_RP2040 cfg env' (world (setup_RP2040 cfg env r))))"
  by (simp add: setup_RP2040_bootCount_not_counted) (simp add: setup_RP2040_bootCount)

text \<open>
  C5, as the claim states it, fails on the ESP32 sketch: \<open>bootCount\<close> is a \<open>uint16_t\<close>,
  and the boot that finds it at 65535 leaves it at 0 although the memory was retained.
\<close>

theorem boot_counter_counterexample:
  "bootCount before_boot_65535 = 0xFFFF
   \<and> ended (setup_ESP32 example_config resumes_no_downlink before_boot_65535) = Some Asleep
   \<and> bootCount (world (setup_ESP32 example_config resumes_no_downlink before_boot_65535)) = 0
   \<and> \<not> unat (bootCount before_boot_65535)
        < unat (bootCount (world (setup_ESP32 example_config resumes_no_downlink
            before_boot_65535)))"
proof -
  have "ended (setup_ESP32 example_config resumes_no_downlink before_boot_65535) = Some Asleep"
    by (simp add: setup_ESP32_def ended_andThen restore_ESP32_ended uplink_ESP32_eq
        resumes_no_downlink_def RADIOLIB_ERR_NONE_def)
  thus ?thesis
    by (simp add: setup_ESP32_bootCount before_boot_65535_def)
qed

text \<open>
  C5, amended. Every run of \<open>setup\<close> of the ESP32 sketch and of the two ESP8266 sketches
  counts the boot exactly once, in the unsigned arithmetic of the counter, and changes
  the count in no other way. On ESP32 the retained \<open>bootCount\<close> goes up by one with every
  boot while it is below 65535 and wraps to 0 from 65535. On ESP8266 the count of a boot
  is the count in RTC memory plus one (in the second sketch 1 when the reset reason is
  not a wake-up from deep sleep, which clears the RTC memory first), and the RTC memory
  takes the count of the boot exactly when the run reaches \<open>gotoSleep\<close>, that is, ends
  asleep or in the restart after a sleep that came back; otherwise it stays as it was
  (cleared to 0 in the second sketch when the boot is not a wake-up). The initial value 1
  is given at a boot that is not a wake-up from deep sleep: by the initialiser on ESP32,
  by the cleared RTC memory in the second ESP8266 sketch, and for a scratch register of 0
  on RP2040. A boot of the ESP32 sketch that finds retained memory has the count 1 only
  when the retained count is 0, that is, after the wrap.
\<close>

theorem boot_counter:
  "bootCount (world (setup_ESP32 cfg env w)) = bootCount w + 1
   \<and> (bootCount w \<noteq> 0xFFFF \<longrightarrow>
        unat (bootCount (world (setup_ESP32 cfg env w))) = unat (bootCount w) + 1)
   \<and> (bootCount w = 0xFFFF \<longrightarrow> bootCount (world (setup_ESP32 cfg env w)) = 0)
   \<and> (bootCount (world (setup_ESP32 cfg env w)) = 1 \<longleftrightarrow> bootCount w = 0)
   \<and> bootCount (power_on_ESP32 session flash) = 1
   \<and> bootCount (world (setup_ESP8266_v1 cfg env v)) = rtc_bootCount v + 1
   \<and> rtc_bootCount (world (setup_ESP8266_v1 cfg env v)) =
        (if ended (setup_ESP8266_v1 cfg env v) = Some Asleep
            \<or> ended (setup_ESP8266_v1 cfg env v) = Some Restarted
         then rtc_bootCount v + 1 else rtc_bootCount v)
   \<and> bootCount (world (setup_ESP8266 cfg env v)) =
        (if getResetReason env \<noteq> ''Deep-Sleep Wake'' then 1 else rtc_bootCount v + 1)
   \<and> rtc_bootCount (world (setup_ESP8266 cfg env v)) =
        (if ended (setup_ESP8266 cfg env v) = Some Asleep
            \<or> ended (setup_ESP8266 cfg env v) = Some Restarted
         then bootCount (world (setup_ESP8266 cfg env v))
         else if getResetReason env \<noteq> ''Deep-Sleep Wake'' then 0 else rtc_bootCount v)
   \<and> (ucast (scratch1 r) = (0 :: uint16_t) \<longrightarrow> bootCount (world (setup_RP2040 cfg env r)) = 1)"
proof -
  have a: "bootCount w \<noteq> 0xFFFF \<longrightarrow> unat (bootCount w + 1) = unat (bootCount w) + 1"
  proof
    assume "bootCount w \<noteq> 0xFFFF"
    hence "unat (bootCount w) \<noteq> 65535"
      by (simp add: word_unat_eq_iff)
    hence "unat (bootCount w) + 1 < 2 ^ 16"
      using unat_uint16_bound [of "bootCount w"] by simp
    thus "unat (bootCount w + 1) = unat (bootCount w) + 1"
      by (simp add: unat_word_ariths)
  qed
  have b: "bootCount w = 0xFFFF \<longrightarrow> bootCount w + 1 = 0"
    by simp
  have c: "bootCount (world (setup_ESP32 cfg env w)) = bootCount w + 1
   \<and> (bootCount w \<noteq> 0xFFFF \<longrightarrow>
        unat (bootCount (world (setup_ESP32 cfg env w))) = unat (bootCount w) + 1)
   \<and> (bootCount w = 0xFFFF \<longrightarrow> bootCount (world (setup_ESP32 cfg env w)) = 0)
   \<and> (bootCount (world (setup_ESP32 cfg env w)) = 1 \<longleftrightarrow> bootCount w = 0)
   \<and> bootCount (power_on_ESP32 session flash) = 1"
    using a b by (simp add: setup_ESP32_bootCount power_on_ESP32_def)
  have d: "bootCount (world (setup_ESP8266_v1 cfg env v)) = rtc_bootCount v + 1"
    by (rule setup_ESP8266_v1_bootCount)
  have e: "rtc_bootCount (world (setup_ESP8266_v1 cfg env v)) =
        (if ended (setup_ESP8266_v1 cfg env v) = Some Asleep
            \<or> ended (setup_ESP8266_v1 cfg env v) = Some Restarted
         then rtc_bootCount v + 1 else rtc_bootCount v)"
    by (rule setup_ESP8266_v1_rtc_bootCount_eq)
  have f: "bootCount (world (setup_ESP8266 cfg env v)) =
        (if getResetReason env \<noteq> ''Deep-Sleep Wake'' then 1 else rtc_bootCount v + 1)"
    by (rule setup_ESP8266_bootCount)
  have g: "rtc_bootCount (world (setup_ESP8266 cfg env v)) =
        (if ended (setup_ESP8266 cfg env v) = Some Asleep
            \<or> ended (setup_ESP8266 cfg env v) = Some Restarted
         then bootCount (world (setup_ESP8266 cfg env v))
         else if getResetReason env \<noteq> ''Deep-Sleep Wake'' then 0 else rtc_bootCount v)"
    by (rule setup_ESP8266_rtc_bootCount_eq)
  have h: "ucast (scratch1 r) = (0 :: uint16_t) \<longrightarrow> bootCount (world (setup_RP2040 cfg env r)) = 1"
    by (simp add: setup_RP2040_bootCount)
  from c d e f g h show ?thesis by (intro conjI) (elim conjE, assumption)+
qed

theorem boot_counter_witness:
  "unat (bootCount (world (setup_ESP32 example_config join_fails
      first_boot))) = 2
   \<and> bootCount (world (setup_ESP32 example_config join_fails before_boot_65535)) = 0
   \<and> bootCount (world (setup_RP2040 example_config join_fails hardware_reset_RP2040)) = 1
   \<and> ended (setup_ESP8266_v1 example_config join_fails first_boot_ESP8266) = Some Asleep
   \<and> rtc_bootCount (world (setup_ESP8266_v1 example_config join_fails first_boot_ESP8266)) = 1
   \<and> ended (setup_ESP8266 example_config join_fails first_boot_ESP8266) = Some Asleep
   \<and> rtc_bootCount (world (setup_ESP8266 example_config join_fails first_boot_ESP8266)) = 1"
proof -
  have a: "ended (setup_ESP8266_v1 example_config join_fails first_boot_ESP8266) = Some Asleep"
    by (simp add: setup_ESP8266_v1_def ended_andThen restore_ESP8266_v1_ended loop_ESP8266_simps
        join_fails_def RADIOLIB_ERR_NONE_def word_sless_alt)
  have b: "ended (setup_ESP8266 example_config join_fails first_boot_ESP8266) = Some Asleep"
    by (simp add: setup_ESP8266_def ended_andThen restore_ESP8266_ended loop_ESP8266_simps
        join_fails_def RADIOLIB_ERR_NONE_def word_sless_alt)
  have c: "getResetReason join_fails = ''Deep-Sleep Wake''"
    by (simp add: join_fails_def)
  show ?thesis
    using a b c boot_counter [of example_config join_fails first_boot]
      boot_counter [of example_config join_fails before_boot_65535 _ _ first_boot_ESP8266
        hardware_reset_RP2040]
    by (simp add: power_on_ESP32_def first_boot_def before_boot_65535_def
        hardware_reset_RP2040_def first_boot_ESP8266_def)
qed


section \<open>A sleep that returns\<close>

lemma after_sleep_none: "DeepSleepStart \<notin> set xs \<Longrightarrow> after_sleep xs = []"
  by (induction xs rule: after_sleep.induct) simp_all

lemma after_sleep_append:
  "after_sleep (xs @ ys) =
     (if DeepSleepStart \<in> set xs then after_sleep xs @ ys else after_sleep ys)"
  by (induction xs rule: after_sleep.induct) simp_all

lemma restore_ESP32_no_sleep:
  "DeepSleepStart \<in> set (trace (world (restore_ESP32 env w))) \<longleftrightarrow> DeepSleepStart \<in> set (trace w)"
  by (simp add: restore_defs split: option.splits)

lemma join_loop_ESP32_after_sleep:
  assumes "DeepSleepStart \<notin> set (trace w)"
  shows "(DeepSleepStart \<in> set (trace (world (join_loop_ESP32 env answers state w))) \<longleftrightarrow>
            ended (join_loop_ESP32 env answers state w)
              = Some (if sleep_returns env then Restarted else Asleep))
    \<and> (ended (join_loop_ESP32 env answers state w) = None
        \<or> ended (join_loop_ESP32 env answers state w) = Some Joining
        \<or> ended (join_loop_ESP32 env answers state w)
              = Some (if sleep_returns env then Restarted else Asleep))
    \<and> after_sleep (trace (world (join_loop_ESP32 env answers state w))) =
        (if DeepSleepStart \<in> set (trace (world (join_loop_ESP32 env answers state w)))
            \<and> sleep_returns env
         then [Delay (5 * 60 * 1000), Restart] else [])"
  using assms
proof (induction answers arbitrary: state w)
  case Nil
  thus ?case by (simp add: after_sleep_none)
next
  case (Cons a answers)
  obtain st persist where a: "a = (st, persist)" by (cases a)
  let ?w1 = "joined_ESP32 persist (emit (BeginOTAA True st) w)"
  consider (idle) "state = RADIOLIB_ERR_NONE"
    | (joined) "state \<noteq> RADIOLIB_ERR_NONE" "\<not> st <s RADIOLIB_ERR_NONE"
    | (failed) "state \<noteq> RADIOLIB_ERR_NONE" "st <s RADIOLIB_ERR_NONE"
    by blast
  thus ?case
  proof cases
    case idle
    thus ?thesis using Cons.prems by (simp add: a after_sleep_none)
  next
    case joined
    have e: "join_loop_ESP32 env (a # answers) state w = join_loop_ESP32 env answers st ?w1"
      unfolding a by (rule join_loop_ESP32_success [OF joined])
    have "DeepSleepStart \<notin> set (trace ?w1)"
      using Cons.prems by (simp add: loop_ESP32_simps)
    from Cons.IH [OF this] show ?thesis
      unfolding e .
  next
    case failed
    thus ?thesis
      using Cons.prems by (simp add: a loop_ESP32_simps after_sleep_append after_sleep_none)
  qed
qed

lemma setup_ESP32_after_sleep:
  assumes "DeepSleepStart \<notin> set (trace w)"
  shows "after_sleep (trace (world (setup_ESP32 cfg env w))) =
        (if DeepSleepStart \<in> set (trace (world (setup_ESP32 cfg env w))) \<and> sleep_returns env
         then [Delay (5 * 60 * 1000), Restart] else [])
    \<and> (DeepSleepStart \<in> set (trace (world (setup_ESP32 cfg env w))) \<longleftrightarrow>
         ended (setup_ESP32 cfg env w) = Some (if sleep_returns env then Restarted else Asleep))"
proof -
  let ?r = "world (restore_ESP32 env w)"
  let ?j = "join_loop_ESP32 env (beginOTAA_join env) (beginOTAA_restore env) ?r"
  have r: "DeepSleepStart \<notin> set (trace ?r)"
    using assms by (simp add: restore_ESP32_no_sleep)
  note j = join_loop_ESP32_after_sleep [OF r, of env "beginOTAA_join env" "beginOTAA_restore env"]
  show ?thesis
  proof (cases "radio_begin env = RADIOLIB_ERR_NONE")
    case False
    thus ?thesis
      using r by (simp add: setup_ESP32_def world_andThen ended_andThen restore_ESP32_ended
          after_sleep_none)
  next
    case True
    show ?thesis
    proof (cases "ended ?j")
      case None
      hence "DeepSleepStart \<notin> set (trace (world ?j))"
        using j by (simp split: if_splits)
      thus ?thesis
        using True None
        by (simp add: setup_ESP32_def world_andThen ended_andThen restore_ESP32_ended
            uplink_ESP32_eq after_sleep_append after_sleep_none)
    next
      case (Some e)
      thus ?thesis
        using True j
        by (simp add: setup_ESP32_def world_andThen ended_andThen restore_ESP32_ended)
    qed
  qed
qed

text \<open>
  C8, as the claim states it, fails on the RP2040 sketch: when the sleep after a failed
  join returns, there is no delay of five minutes and no restart; the loop joins again
  and the same run goes on to the uplink.
\<close>

theorem failed_sleep_defence_counterexample:
  "sleep_returns sleep_comes_back
   \<and> trace (world (setup_RP2040 example_config sleep_comes_back hardware_reset_RP2040)) =
       [Delay 2000, SetBufferSession [], BeginOTAA False (- 1),
        BeginOTAA True (- 1), GotoSleep 60, Delay 100, PicoSleep 60,
        BeginOTAA True 0, PutNonces [7], Delay 1000,
        SendReceive [0xDE, 0xAD, 0xBE, 0xEF] 0,
        GotoSleep 300, Delay 100, PicoSleep 300, Restart]"
  by (simp add: setup_RP2040_def restore_defs loop_RP2040_simps uplink_RP2040_eq
      sleep_comes_back_def hardware_reset_RP2040_def example_config_def RADIOLIB_ERR_NONE_def
      word_sless_alt sleepForSeconds_def)

text \<open>
  C8, amended. On ESP32 and ESP8266, when the sleep primitive returns, \<open>gotoSleep\<close> waits
  five minutes (300000 ms) and forces a restart, and it never returns to its caller: in a
  run of the ESP32 \<open>setup\<close> nothing but this delay and restart follows the start of deep
  sleep. On RP2040 \<open>gotoSleep\<close> has no such path: when \<open>pico_sleep\<close> returns it returns
  to its caller without a delay, and after the sleep that follows the uplink \<open>setup\<close>
  forces a restart at once.
\<close>

theorem failed_sleep_defence:
  "(sleep_returns env \<longrightarrow>
      gotoSleep_ESP32 env seconds w =
        Stop Restarted (w\<lparr>trace := trace w @ [GotoSleep seconds,
          TimerWakeup (microseconds seconds), DeepSleepStart, Delay (5 * 60 * 1000), Restart]\<rparr>)
      \<and> gotoSleep_ESP8266 env seconds v =
        Stop Restarted (v\<lparr>trace := trace v @ [GotoSleep seconds,
          DeepSleep (microseconds seconds), Delay (5 * 60 * 1000), Restart],
          rtc_bootCount := bootCount v,
          rtc_bootCountSinceUnsuccessfulJoin := bootCountSinceUnsuccessfulJoin v\<rparr>))
   \<and> unat (5 * 60 * 1000 :: uint32_t) = 300000
   \<and> ended (gotoSleep_ESP32 env seconds w) = Some (if sleep_returns env then Restarted else Asleep)
   \<and> ended (gotoSleep_ESP8266 env seconds v) = Some (if sleep_returns env then Restarted else Asleep)
   \<and> after_sleep (trace (world (setup_ESP32 cfg env (w\<lparr>trace := []\<rparr>)))) =
        (if DeepSleepStart \<in> set (trace (world (setup_ESP32 cfg env (w\<lparr>trace := []\<rparr>))))
            \<and> sleep_returns env
         then [Delay (5 * 60 * 1000), Restart] else [])
   \<and> (DeepSleepStart \<in> set (trace (world (setup_ESP32 cfg env (w\<lparr>trace := []\<rparr>)))) \<longleftrightarrow>
         ended (setup_ESP32 cfg env (w\<lparr>trace := []\<rparr>))
           = Some (if sleep_returns env then Restarted else Asleep))
   \<and> (sleep_returns env \<longrightarrow>
      gotoSleep_RP2040 env seconds r =
        Next (r\<lparr>trace := trace r @ [GotoSleep seconds, Delay 100, PicoSleep seconds],
                scratch1 := ucast (bootCount r)\<rparr>)
      \<and> ended (uplink_RP2040 cfg env r) = Some Restarted
      \<and> suffix [GotoSleep (uplinkIntervalSeconds cfg), Delay 100,
                 PicoSleep (uplinkIntervalSeconds cfg), Restart]
           (trace (world (uplink_RP2040 cfg env r))))"
proof -
  have a: "sleep_returns env \<longrightarrow>
      gotoSleep_ESP32 env seconds w =
        Stop Restarted (w\<lparr>trace := trace w @ [GotoSleep seconds,
          TimerWakeup (microseconds seconds), DeepSleepStart, Delay (5 * 60 * 1000), Restart]\<rparr>)
      \<and> gotoSleep_ESP8266 env seconds v =
        Stop Restarted (v\<lparr>trace := trace v @ [GotoSleep seconds,
          DeepSleep (microseconds seconds), Delay (5 * 60 * 1000), Restart],
          rtc_bootCount := bootCount v,
          rtc_bootCountSinceUnsuccessfulJoin := bootCountSinceUnsuccessfulJoin v\<rparr>)"
    by (simp add: gotoSleep_ESP32_eq gotoSleep_ESP8266_eq)
  have b: "unat (5 * 60 * 1000 :: uint32_t) = 300000"
    by simp
  have c: "ended (gotoSleep_ESP32 env seconds w) = Some (if sleep_returns env then Restarted else Asleep)
   \<and> ended (gotoSleep_ESP8266 env seconds v) = Some (if sleep_returns env then Restarted else Asleep)"
    by (simp add: gotoSleep_ESP32_eq gotoSleep_ESP8266_eq)
  have d: "after_sleep (trace (world (setup_ESP32 cfg env (w\<lparr>trace := []\<rparr>)))) =
        (if DeepSleepStart \<in> set (trace (world (setup_ESP32 cfg env (w\<lparr>trace := []\<rparr>))))
            \<and> sleep_returns env
         then [Delay (5 * 60 * 1000), Restart] else [])
   \<and> (DeepSleepStart \<in> set (trace (world (setup_ESP32 cfg env (w\<lparr>trace := []\<rparr>)))) \<longleftrightarrow>
         ended (setup_ESP32 cfg env (w\<lparr>trace := []\<rparr>))
           = Some (if sleep_returns env then Restarted else Asleep))"
    by (rule setup_ESP32_after_sleep) simp
  have e: "sleep_returns env \<longrightarrow>
      gotoSleep_RP2040 env seconds r =
        Next (r\<lparr>trace := trace r @ [GotoSleep seconds, Delay 100, PicoSleep seconds],
                scratch1 := ucast (bootCount r)\<rparr>)
      \<and> ended (uplink_RP2040 cfg env r) = Some Restarted
      \<and> suffix [GotoSleep (uplinkIntervalSeconds cfg), Delay 100,
                 PicoSleep (uplinkIntervalSeconds cfg), Restart]
           (trace (world (uplink_RP2040 cfg env r)))"
    by (simp add: gotoSleep_RP2040_eq uplink_RP2040_eq suffix_def)
  from a b c d e show ?thesis by (intro conjI) (elim conjE, assumption)+
qed

theorem failed_sleep_defence_witness:
  "sleep_returns sleep_comes_back
   \<and> trace (world (gotoSleep_ESP32 sleep_comes_back 60 first_boot)) =
       [GotoSleep 60, TimerWakeup 60000000, DeepSleepStart, Delay 300000, Restart]
   \<and> ended (uplink_RP2040 example_config sleep_comes_back hardware_reset_RP2040) = Some Restarted"
proof -
  have h: "sleep_returns sleep_comes_back"
    by (simp add: sleep_comes_back_def)
  have m: "microseconds 60 = 60000000"
    by (simp add: microseconds_def)
  show ?thesis
    using h m failed_sleep_defence [of sleep_comes_back 60 first_boot _
        example_config hardware_reset_RP2040]
    by (simp add: power_on_ESP32_def first_boot_def)
qed

end
